(* ===== verification/Prelude.thy ===== *)
theory Prelude
  imports Main "HOL-Library.Multiset"
begin

text \<open>
  Shared vocabulary of the development: the JavaScript values the components read from
  the backend (nullable integer and text columns), the coercions the source applies to
  them (\<open>null * k\<close>, \<open>x || d\<close>, \<open>===\<close>), and generic list facts used by
  several components.  A nullable column is an \<open>option\<close>: \<open>None\<close> is JavaScript
  \<open>null\<close>.
\<close>

named_theorems js_simps "evaluation equations of the JavaScript coercions"

type_synonym js_int = "int option"
type_synonym js_string = "string option"

text \<open>\<open>ToNumber\<close> on a nullable integer: arithmetic on \<open>null\<close> treats it as \<open>0\<close>.\<close>

definition to_number :: "js_int \<Rightarrow> int" where
  "to_number v = (case v of None \<Rightarrow> 0 | Some n \<Rightarrow> n)"

text \<open>\<open>v || d\<close>: the default is taken when \<open>v\<close> is falsy (\<open>null\<close>, \<open>''''\<close>, \<open>0\<close>).\<close>

definition js_or_str :: "js_string \<Rightarrow> string \<Rightarrow> string" where
  "js_or_str v d = (case v of None \<Rightarrow> d | Some s \<Rightarrow> if s = [] then d else s)"

definition js_or_int :: "js_int \<Rightarrow> int \<Rightarrow> int" where
  "js_or_int v d = (case v of None \<Rightarrow> d | Some n \<Rightarrow> if n = 0 then d else n)"

text \<open>Strict equality \<open>v === s\<close> of a nullable column with a string.\<close>

definition js_str_eq :: "js_string \<Rightarrow> string \<Rightarrow> bool" where
  "js_str_eq v s \<longleftrightarrow> v = Some s"

text \<open>A nullable \<open>int4\<close> column: \<open>null\<close> or a 32-bit signed value.\<close>

definition int4_column :: "js_int \<Rightarrow> bool" where
  "int4_column v \<longleftrightarrow> (case v of None \<Rightarrow> True | Some n \<Rightarrow> - (2 ^ 31) \<le> n \<and> n < 2 ^ 31)"

text \<open>A nullable column holding no negative value.\<close>

definition nonneg_column :: "js_int \<Rightarrow> bool" where
  "nonneg_column v \<longleftrightarrow> (case v of None \<Rightarrow> True | Some n \<Rightarrow> 0 \<le> n)"

lemma to_number_simps [simp, js_simps]:
  "to_number None = 0" "to_number (Some n) = n"
  by (simp_all add: to_number_def)

lemma js_or_str_simps [simp, js_simps]:
  "js_or_str None d = d" "js_or_str (Some s) d = (if s = [] then d else s)"
  by (simp_all add: js_or_str_def)

lemma js_or_int_simps [simp, js_simps]:
  "js_or_int None d = d" "js_or_int (Some n) d = (if n = 0 then d else n)"
  by (simp_all add: js_or_int_def)

lemma js_str_eq_iff [simp, js_simps]: "js_str_eq v s \<longleftrightarrow> v = Some s"
  by (simp add: js_str_eq_def)

lemma js_or_str_nonempty: "d \<noteq> [] \<Longrightarrow> js_or_str v d \<noteq> []"
  by (cases v) simp_all

lemma to_number_nonneg: "nonneg_column v \<Longrightarrow> 0 \<le> to_number v"
  by (cases v) (simp_all add: nonneg_column_def)

lemma int4_column_to_number:
  "int4_column v \<Longrightarrow> - (2 ^ 31) \<le> to_number v \<and> to_number v < 2 ^ 31"
  by (cases v) (simp_all add: int4_column_def)

text \<open>Filtering commutes with a map that leaves the filtered attribute alone.\<close>

lemma filter_map_preserving:
  assumes "\<And>x. P (f x) = P x"
  shows "filter P (map f xs) = map f (filter P xs)"
  using assms by (induction xs) simp_all

end
