(* ===== verification/Points.thy ===== *)
theory Points
  imports Complex_Main Prelude
begin

text \<open>
  \<open>calculatePoints\<close> of \<open>src/src/pages/Leaderboard.jsx\<close> (lines 6--11).  The three
  counts are the nullable columns the leaderboard query returns; JavaScript multiplies
  and adds \<open>null\<close> as \<open>0\<close>.  The source computes a half-weighted jumping-jack term
  and never uses it: the sum adds the raw \<open>jumpingJacks\<close>.  The \<open>let\<close> keeps the
  dead binding, as the code has it.
\<close>

definition calculatePoints :: "js_int \<Rightarrow> js_int \<Rightarrow> js_int \<Rightarrow> int" where
  "calculatePoints squats pushups jumpingJacks =
     (let squatPoints = to_number squats * 1;
          pushupPoints = to_number pushups * 2;
          jumpingJackPoints = (of_int (to_number jumpingJacks) :: rat) * (1 / 2)
      in squatPoints + pushupPoints + to_number jumpingJacks)"

text \<open>Integers an IEEE double represents exactly (\<open>Number.isSafeInteger\<close>).\<close>

definition js_safe_integer :: "int \<Rightarrow> bool" where
  "js_safe_integer n \<longleftrightarrow> \<bar>n\<bar> \<le> 2 ^ 53 - 1"

lemma calculatePoints_bound:
  assumes "int4_column s" "int4_column p" "int4_column j"
  shows "\<bar>calculatePoints s p j\<bar> \<le> 2 ^ 33"
  using int4_column_to_number [OF assms(1)] int4_column_to_number [OF assms(2)]
    int4_column_to_number [OF assms(3)]
  by (simp add: calculatePoints_def abs_le_iff)

lemma js_safe_integerI: "\<bar>n\<bar> \<le> 2 ^ 34 \<Longrightarrow> js_safe_integer n"
  by (simp add: js_safe_integer_def)

subsection \<open>Properties of the score\<close>

text \<open>
  C6. With no negative count, the score is not negative.
\<close>

theorem calculatePoints_nonneg:
  assumes "nonneg_column squats" "nonneg_column pushups" "nonneg_column jumpingJacks"
  shows "0 \<le> calculatePoints squats pushups jumpingJacks"
  using to_number_nonneg [OF assms(1)] to_number_nonneg [OF assms(2)]
    to_number_nonneg [OF assms(3)]
  by (simp add: calculatePoints_def)

theorem calculatePoints_nonneg_witness:
  "nonneg_column (Some 3) \<and> nonneg_column None \<and> nonneg_column (Some 4) \<and>
   0 \<le> calculatePoints (Some 3) None (Some 4)"
proof -
  have c: "nonneg_column (Some 3)" "nonneg_column None" "nonneg_column (Some 4)"
    by (simp_all add: nonneg_column_def)
  show ?thesis using c calculatePoints_nonneg [OF c] by simp
qed

end
