(* ===== verification/JS_Array.thy ===== *)
theory JS_Array
  imports Prelude
begin

text \<open>
  \<open>Array.prototype.sort\<close> with a comparator, as the components call it.  ECMAScript
  (since 2019) requires the sort to be stable: elements the comparator calls equal keep
  their order.  \<open>js_sort\<close> is a stable insertion sort driven by the comparator: a result
  \<open>> 0\<close> of \<open>cmp a b\<close> puts \<open>b\<close> first, anything else keeps \<open>a\<close> first.  For a
  comparator derived from a key by subtraction the stable sorted permutation is unique
  (\<open>js_sort_unique\<close>), so any conforming engine (V8's TimSort included) returns the
  list this definition computes.
\<close>

type_synonym 'a comparator = "'a \<Rightarrow> 'a \<Rightarrow> int"

fun js_insert :: "'a comparator \<Rightarrow> 'a \<Rightarrow> 'a list \<Rightarrow> 'a list" where
  "js_insert cmp x [] = [x]"
| "js_insert cmp x (y # ys) = (if 0 < cmp x y then y # js_insert cmp x ys else x # y # ys)"

fun js_sort :: "'a comparator \<Rightarrow> 'a list \<Rightarrow> 'a list" where
  "js_sort cmp [] = []"
| "js_sort cmp (x # xs) = js_insert cmp x (js_sort cmp xs)"

text \<open>A comparator that subtracts keys, \<open>(a, b) => key(a) - key(b)\<close>.\<close>

definition key_comparator :: "('a \<Rightarrow> int) \<Rightarrow> 'a comparator" where
  "key_comparator key a b = key a - key b"

lemma js_insert_key_comparator:
  "js_insert (key_comparator key) x xs = insort_key key x xs"
  by (induction xs) (auto simp: key_comparator_def)

text \<open>Refinement: the comparator sort is the library's stable \<open>sort_key\<close>.\<close>

lemma js_sort_key_comparator:
  "js_sort (key_comparator key) xs = sort_key key xs"
  by (induction xs) (simp_all add: js_insert_key_comparator)

lemma js_sort_unique:
  assumes "mset ys = mset xs"
    and "\<And>k. k \<in> set ys \<Longrightarrow> filter (\<lambda>x. key k = key x) ys = filter (\<lambda>x. key k = key x) xs"
    and "sorted (map key ys)"
  shows "js_sort (key_comparator key) xs = ys"
  using properties_for_sort_key [OF assms] by (simp add: js_sort_key_comparator)

end
