(* ===== verification/Backend.thy ===== *)
theory Backend
  imports Prelude
begin

text \<open>
  The hosted backend the components query through the client \<open>./supabase\<close> (imported
  by every page, not part of the sources).  Its state is explicit: the current session
  (\<open>supabase.auth.getUser()\<close>), the table \<open>registered_trackies\<close> as a list of rows in
  the order the service returns them, and whether the service answers at all.  Each
  query returns \<open>{data, error}\<close>, modelled as \<open>query_result\<close>.
\<close>

datatype 'a query_result = QOk 'a | QError string

text \<open>A row of \<open>registered_trackies\<close>; nullable columns are options.\<close>

record trackie =
  user_id :: string
  col_name :: js_string
  total_squats :: js_int
  col_pushups :: js_int
  jumping_jacks :: js_int
  streak :: js_int

text \<open>\<open>getUser()\<close>: an error, no signed-in user (\<open>data.user\<close> is null), or a user id.\<close>

datatype auth_result = AuthError string | NoSession | SignedIn string

record backend =
  session :: auth_result
  trackies :: "trackie list"
  reachable_db :: bool

definition get_user :: "backend \<Rightarrow> auth_result" where
  "get_user b = session b"

text \<open>\<open>from('registered_trackies').select(...)\<close>: every row.\<close>

definition select_all :: "backend \<Rightarrow> trackie list query_result" where
  "select_all b = (if reachable_db b then QOk (trackies b) else QError ''fetch failed'')"

text \<open>
  \<open>.eq('user_id', uid).single()\<close>: the one row of the user; no row or several rows is
  an error, as PostgREST reports it.
\<close>

definition select_single :: "backend \<Rightarrow> string \<Rightarrow> trackie query_result" where
  "select_single b uid =
     (if \<not> reachable_db b then QError ''fetch failed''
      else (case filter (\<lambda>r. user_id r = uid) (trackies b) of
              [r] \<Rightarrow> QOk r
            | _ \<Rightarrow> QError ''PGRST116''))"

text \<open>
  \<open>auth.signOut()\<close>: the promise resolves to \<open>{error}\<close>.  With a stored session
  the client first revokes it at the service; when the service cannot be reached that
  request fails, the error is returned and the local session is kept.  Otherwise (no
  session, or the service answered) the local session is removed and \<open>error\<close> is null.
\<close>

definition signOut :: "backend \<Rightarrow> backend \<times> string option" where
  "signOut b =
     (if session b = NoSession \<or> reachable_db b then (b\<lparr>session := NoSession\<rparr>, None)
      else (b, Some ''AuthRetryableFetchError''))"

text \<open>The three count columns of a row are \<open>int4\<close> values or \<open>null\<close>.\<close>

definition int4_counts :: "trackie \<Rightarrow> bool" where
  "int4_counts r \<longleftrightarrow>
     int4_column (total_squats r) \<and> int4_column (col_pushups r) \<and> int4_column (jumping_jacks r)"

text \<open>A row with the given name (also its user id), counts and no streak.\<close>

definition mk_row :: "string \<Rightarrow> int \<Rightarrow> int \<Rightarrow> int \<Rightarrow> trackie" where
  "mk_row n s p j =
     \<lparr>user_id = n, col_name = Some n, total_squats = Some s, col_pushups = Some p,
      jumping_jacks = Some j, streak = None\<rparr>"

lemma select_single_unique:
  assumes "reachable_db b" and "filter (\<lambda>r. user_id r = uid) (trackies b) = [r]"
  shows "select_single b uid = QOk r"
  using assms by (simp add: select_single_def)

lemma select_single_QOk:
  "select_single b uid = QOk r \<Longrightarrow> r \<in> set (trackies b) \<and> user_id r = uid"
proof -
  assume ok: "select_single b uid = QOk r"
  then have "filter (\<lambda>r. user_id r = uid) (trackies b) = [r]"
    by (auto simp: select_single_def split: if_splits list.splits)
  then have "r \<in> set (filter (\<lambda>r. user_id r = uid) (trackies b))" by simp
  then show ?thesis by simp
qed

end
