(* ===== verification/Ranking.thy ===== *)
theory Ranking
  imports Points JS_Array Backend
begin

text \<open>
  The ranking computation of \<open>fetchLeaderboardData\<close> in
  \<open>src/src/pages/Leaderboard.jsx\<close> (lines 54--66): every row becomes an entry with its
  points and the \<open>isUser\<close> flag, the entries are sorted by
  \<open>(a, b) => b.points - a.points\<close>, and \<open>forEach\<close> writes \<open>rank = index + 1\<close>.
  Before that loop an entry has no \<open>rank\<close> property: \<open>rank\<close> is \<open>None\<close> there.
\<close>

record lb_entry =
  name :: js_string
  squats :: js_int
  pushups :: js_int
  jumpingJacks :: js_int
  points :: int
  isUser :: bool
  rank :: "nat option"

text \<open>The object literal built by \<open>data.map((user) => ({...}))\<close>.\<close>

definition to_entry :: "string \<Rightarrow> trackie \<Rightarrow> lb_entry" where
  "to_entry userName user =
     \<lparr>name = col_name user,
      squats = total_squats user,
      pushups = col_pushups user,
      jumpingJacks = jumping_jacks user,
      points = calculatePoints (total_squats user) (col_pushups user) (jumping_jacks user),
      isUser = js_str_eq (col_name user) userName,
      rank = None\<rparr>"

definition by_points_desc :: "lb_entry comparator" where
  "by_points_desc a b = points b - points a"

definition sort_leaderboard :: "lb_entry list \<Rightarrow> lb_entry list" where
  "sort_leaderboard entries = js_sort by_points_desc entries"

text \<open>\<open>leaderboard.forEach((user, index) => { user.rank = index + 1; })\<close>, from index \<open>i\<close>.\<close>

primrec assign_ranks_from :: "nat \<Rightarrow> lb_entry list \<Rightarrow> lb_entry list" where
  "assign_ranks_from i [] = []"
| "assign_ranks_from i (u # us) = u\<lparr>rank := Some (i + 1)\<rparr> # assign_ranks_from (Suc i) us"

definition assign_ranks :: "lb_entry list \<Rightarrow> lb_entry list" where
  "assign_ranks entries = assign_ranks_from 0 entries"

definition build_leaderboard :: "string \<Rightarrow> trackie list \<Rightarrow> lb_entry list" where
  "build_leaderboard userName data =
     assign_ranks (sort_leaderboard (map (to_entry userName) data))"

text \<open>An entry with its rank erased, to compare the output with the mapped rows.\<close>

definition unranked :: "lb_entry \<Rightarrow> lb_entry" where
  "unranked e = e\<lparr>rank := None\<rparr>"

text \<open>The sort key: points, negated for the descending order.\<close>

definition desc_points :: "lb_entry \<Rightarrow> int" where
  "desc_points e = - points e"

text \<open>
  What the spec (section 4.1) asks of the ranking: the entries, ranks erased, are a
  permutation of the mapped rows, in descending order of points, with entries of equal
  points in input order, and ranked \<open>1..n\<close> in list order.
\<close>

definition ranked_spec :: "string \<Rightarrow> trackie list \<Rightarrow> lb_entry list \<Rightarrow> bool" where
  "ranked_spec userName data out \<longleftrightarrow>
     mset (map unranked out) = mset (map (to_entry userName) data) \<and>
     sorted_wrt (\<lambda>a b. points b \<le> points a) out \<and>
     (\<forall>k \<in> set out. filter (\<lambda>e. points e = points k) (map unranked out) =
                    filter (\<lambda>e. points e = points k) (map (to_entry userName) data)) \<and>
     map rank out = map Some [1..<length out + 1]"

subsection \<open>The sort\<close>

lemma by_points_desc_key: "by_points_desc = key_comparator desc_points"
  by (simp add: fun_eq_iff by_points_desc_def key_comparator_def desc_points_def)

lemma sort_leaderboard_sort_key:
  "sort_leaderboard entries = sort_key desc_points entries"
  by (simp add: sort_leaderboard_def by_points_desc_key js_sort_key_comparator)

subsection \<open>The rank loop\<close>

lemma assign_ranks_from_length [simp]: "length (assign_ranks_from i es) = length es"
  by (induction es arbitrary: i) simp_all

lemma assign_ranks_from_rank:
  "map rank (assign_ranks_from i es) = map Some [Suc i..<Suc i + length es]"
  by (induction es arbitrary: i) (simp_all del: upt_Suc add: upt_conv_Cons)

lemma assign_ranks_from_unranked:
  "map unranked (assign_ranks_from i es) = map unranked es"
  by (induction es arbitrary: i) (simp_all add: unranked_def)

lemma unranked_fields [simp]:
  "points (unranked e) = points e" "name (unranked e) = name e" "isUser (unranked e) = isUser e"
  by (simp_all add: unranked_def)

lemma to_entry_unranked [simp]: "unranked (to_entry u r) = to_entry u r"
  by (simp add: unranked_def to_entry_def)

lemma unranked_to_entry_comp [simp]: "unranked \<circ> to_entry u = to_entry u"
  by (simp add: fun_eq_iff)

lemma desc_points_unranked_comp [simp]: "desc_points \<circ> unranked = desc_points"
  by (simp add: fun_eq_iff desc_points_def)

lemma assign_ranks_from_points:
  "map points (assign_ranks_from i es) = map points es"
proof -
  have "map points (assign_ranks_from i es) = map (points \<circ> unranked) (assign_ranks_from i es)"
    by simp
  also have "\<dots> = map points (map unranked es)"
    by (simp only: map_map [symmetric] assign_ranks_from_unranked)
  finally show ?thesis by simp
qed

lemma map_desc_points: "map desc_points es = map uminus (map points es)"
  by (simp add: desc_points_def)

lemma sorted_desc_points_iff:
  "sorted (map desc_points es) \<longleftrightarrow> sorted_wrt (\<lambda>a b. points b \<le> points a) es"
  by (simp add: sorted_map desc_points_def)

lemma sorted_wrt_points_iff:
  "sorted_wrt (\<lambda>a b. points b \<le> points a) es \<longleftrightarrow> sorted_wrt (\<lambda>a b. b \<le> a) (map points es)"
  by (simp add: sorted_wrt_map)

lemma sorted_wrt_points_map:
  "map points xs = map points ys \<Longrightarrow>
   sorted_wrt (\<lambda>a b. points b \<le> points a) xs = sorted_wrt (\<lambda>a b. points b \<le> points a) ys"
  by (simp add: sorted_wrt_points_iff)

lemma filter_desc_points_eq:
  "(\<lambda>x. desc_points k = desc_points x) = (\<lambda>x. points x = points k)"
  by (auto simp: fun_eq_iff desc_points_def)

lemma filter_points_unranked:
  "filter (\<lambda>e. points e = k) (map unranked es) = map unranked (filter (\<lambda>e. points e = k) es)"
  by (rule filter_map_preserving) simp

lemma assign_ranks_from_restore:
  "map rank es = map Some [Suc i..<Suc i + length es] \<Longrightarrow>
   assign_ranks_from i (map unranked es) = es"
  by (induction es arbitrary: i) (simp_all del: upt_Suc add: upt_conv_Cons unranked_def)

lemma rank_to_entry [simp]: "rank (to_entry u r) = None"
  by (simp add: to_entry_def)

lemma map_unranked_id: "(\<forall>e \<in> set es. rank e = None) \<Longrightarrow> map unranked es = es"
  by (induction es) (simp_all add: unranked_def)

lemma sort_key_points_stable:
  "filter (\<lambda>e. points e = k) (sort_key desc_points es) = filter (\<lambda>e. points e = k) es"
proof -
  have "(\<lambda>e. desc_points e = - k) = (\<lambda>e. points e = k)"
    by (auto simp: fun_eq_iff desc_points_def)
  with sort_key_stable [of desc_points "- k" es] show ?thesis by simp
qed

lemma sorted_wrt_sort_key_points:
  "sorted_wrt (\<lambda>a b. points b \<le> points a) (sort_key desc_points es)"
  using sorted_desc_points_iff [of "sort_key desc_points es"] by simp

lemmas build_leaderboard_unfold =
  build_leaderboard_def assign_ranks_def sort_leaderboard_sort_key

text \<open>With ranks erased, the leaderboard is the stable sort of the mapped rows.\<close>

lemma map_unranked_build_leaderboard:
  "map unranked (build_leaderboard u data) = sort_key desc_points (map (to_entry u) data)"
proof -
  have "\<forall>e \<in> set (sort_key desc_points (map (to_entry u) data)). rank e = None"
    by auto
  then show ?thesis
    by (simp add: build_leaderboard_unfold assign_ranks_from_unranked map_unranked_id)
qed

lemma points_build_leaderboard:
  "map points (build_leaderboard u data) = map points (sort_key desc_points (map (to_entry u) data))"
  by (simp add: build_leaderboard_unfold assign_ranks_from_points)

lemma rank_build_leaderboard:
  "map rank (build_leaderboard u data) = map Some [Suc 0..<Suc 0 + length data]"
  using assign_ranks_from_rank [of 0 "sort_key desc_points (map (to_entry u) data)"]
  by (simp del: upt_Suc add: build_leaderboard_unfold)

lemma isUser_build_leaderboard:
  "e \<in> set (build_leaderboard u data) \<Longrightarrow> isUser e \<longleftrightarrow> name e = Some u"
proof -
  assume "e \<in> set (build_leaderboard u data)"
  then have "unranked e \<in> set (map unranked (build_leaderboard u data))" by simp
  then have "unranked e \<in> to_entry u ` set data"
    by (simp only: map_unranked_build_leaderboard set_sort set_map)
  then obtain r where "unranked e = to_entry u r" by blast
  then have "isUser (unranked e) = js_str_eq (col_name r) u" and "name (unranked e) = col_name r"
    by (simp_all add: to_entry_def)
  then show ?thesis by simp
qed

lemma length_build_leaderboard [simp]: "length (build_leaderboard u data) = length data"
  by (simp add: build_leaderboard_unfold)


subsection \<open>Properties of the ranking\<close>

text \<open>
  C1. The ranks of the leaderboard are exactly \<open>1, 2, ..., n\<close> in list order, for \<open>n\<close>
  input rows: dense, without gaps or duplicates, ties included.
\<close>

theorem build_leaderboard_ranks:
  "map rank (build_leaderboard userName data) = map Some [1..<length data + 1]"
  using rank_build_leaderboard [of userName data] by simp

text \<open>
  C2. The leaderboard is in descending order of points: every entry has at least the
  points of every entry after it.
\<close>

theorem build_leaderboard_sorted:
  "sorted_wrt (\<lambda>a b. points b \<le> points a) (build_leaderboard userName data)"
  using sorted_wrt_sort_key_points [of "map (to_entry userName) data"]
  by (simp add: sorted_wrt_points_map [OF points_build_leaderboard])

text \<open>
  C3. The leaderboard has one entry per row, and with ranks erased its entries are a
  permutation of the entries the rows map to: nothing lost, nothing duplicated.
\<close>

theorem build_leaderboard_perm:
  "length (build_leaderboard userName data) = length data \<and>
   mset (map unranked (build_leaderboard userName data)) = mset (map (to_entry userName) data)"
  by (simp only: map_unranked_build_leaderboard mset_sort length_build_leaderboard simp_thms)

text \<open>
  C4. The sort is stable: among entries with the same points the leaderboard keeps the
  order of the rows the backend returned.
\<close>

theorem build_leaderboard_stable:
  "filter (\<lambda>e. points e = k) (map unranked (build_leaderboard userName data)) =
   filter (\<lambda>e. points e = k) (map (to_entry userName) data)"
  by (simp only: map_unranked_build_leaderboard sort_key_points_stable)

text \<open>
  C5. Refinement: the list \<open>fetchLeaderboardData\<close> stores is the one and only list that
  meets the abstract ranking specification \<open>ranked_spec\<close>.
\<close>

theorem build_leaderboard_refines_spec:
  "ranked_spec userName data out \<longleftrightarrow> out = build_leaderboard userName data"
proof
  assume spec: "ranked_spec userName data out"
  let ?xs = "map (to_entry userName) data"
  have "sort_key desc_points ?xs = map unranked out"
  proof (rule properties_for_sort_key)
    show "mset (map unranked out) = mset ?xs" using spec by (simp add: ranked_spec_def)
    show "sorted (map desc_points (map unranked out))"
      using spec sorted_desc_points_iff [of out] by (simp add: ranked_spec_def)
  next
    fix k assume "k \<in> set (map unranked out)"
    then obtain k' where "k' \<in> set out" and "points k = points k'" by auto
    with spec show "filter (\<lambda>x. desc_points k = desc_points x) (map unranked out) =
                    filter (\<lambda>x. desc_points k = desc_points x) ?xs"
      by (simp add: ranked_spec_def filter_desc_points_eq)
  qed
  moreover have "assign_ranks_from 0 (map unranked out) = out"
    using spec by (intro assign_ranks_from_restore) (simp del: upt_Suc add: ranked_spec_def)
  ultimately show "out = build_leaderboard userName data"
    by (simp add: build_leaderboard_unfold)
next
  assume out: "out = build_leaderboard userName data"
  have "mset (map unranked out) = mset (map (to_entry userName) data)"
    by (simp add: out map_unranked_build_leaderboard)
  moreover have "sorted_wrt (\<lambda>a b. points b \<le> points a) out"
    using sorted_wrt_sort_key_points [of "map (to_entry userName) data"]
    by (simp add: out sorted_wrt_points_map [OF points_build_leaderboard])
  moreover have "filter (\<lambda>e. points e = points k) (map unranked out) =
                 filter (\<lambda>e. points e = points k) (map (to_entry userName) data)" for k
    by (simp only: out map_unranked_build_leaderboard sort_key_points_stable)
  moreover have "map rank out = map Some [1..<length out + 1]"
    using rank_build_leaderboard [of userName data] by (simp add: out)
  ultimately show "ranked_spec userName data out"
    by (simp only: ranked_spec_def ball_simps) blast
qed

text \<open>
  C7. The \<open>isUser\<close> flag of an entry is exactly whether its name is the user name the
  fetch ran with (strict equality: case-sensitive, no trimming; a \<open>null\<close> name never
  matches).
\<close>

theorem build_leaderboard_isUser:
  "map isUser (build_leaderboard userName data) =
   map (\<lambda>e. name e = Some userName) (build_leaderboard userName data)"
  by (simp add: isUser_build_leaderboard)

text \<open>
  C8. When no two rows score the same, the leaderboard does not depend on the order in
  which the backend returns the rows: any permutation of them gives the same list, ranks
  included.
\<close>

theorem build_leaderboard_order_independent:
  assumes "mset data' = mset data"
    and "distinct (map (points \<circ> to_entry userName) data)"
  shows "build_leaderboard userName data' = build_leaderboard userName data"
proof -
  let ?xs = "map (to_entry userName) data" and ?ys = "map (to_entry userName) data'"
  have "inj_on points (set ?xs)"
    using assms(2) by (simp add: distinct_map inj_on_imageI)
  then have inj: "inj_on desc_points (set ?xs)"
    by (auto simp: inj_on_def desc_points_def)
  have "sort_key desc_points ?xs = sort_key desc_points ?ys"
    using assms(1) inj by (intro sort_key_inj_key_eq) simp_all
  then show ?thesis by (simp add: build_leaderboard_unfold)
qed

theorem build_leaderboard_order_independent_witness:
  "build_leaderboard ''me'' [mk_row ''b'' 2 0 0, mk_row ''a'' 1 0 0] =
   build_leaderboard ''me'' [mk_row ''a'' 1 0 0, mk_row ''b'' 2 0 0]"
  by (rule build_leaderboard_order_independent)
     (simp_all add: mk_row_def to_entry_def calculatePoints_def)

text \<open>
  C9. For rows whose counts are \<open>int4\<close> values, every number the ranking computes
  (each score and each comparator difference \<open>b.points - a.points\<close>) is a safe
  integer, so the double arithmetic of JavaScript is exact and the integer model is
  faithful.
\<close>

theorem ranking_arithmetic_exact:
  assumes "int4_counts r1" and "int4_counts r2"
  shows "js_safe_integer (points (to_entry u r1)) \<and>
         js_safe_integer (by_points_desc (to_entry u r1) (to_entry u r2))"
proof -
  have b1: "\<bar>points (to_entry u r1)\<bar> \<le> 2 ^ 33"
    using assms(1) calculatePoints_bound [of "total_squats r1" "col_pushups r1" "jumping_jacks r1"]
    by (simp add: to_entry_def int4_counts_def)
  have b2: "\<bar>points (to_entry u r2)\<bar> \<le> 2 ^ 33"
    using assms(2) calculatePoints_bound [of "total_squats r2" "col_pushups r2" "jumping_jacks r2"]
    by (simp add: to_entry_def int4_counts_def)
  have "\<bar>by_points_desc (to_entry u r1) (to_entry u r2)\<bar> \<le> 2 ^ 34"
    using b1 b2 by (simp add: by_points_desc_def abs_le_iff)
  moreover have "\<bar>points (to_entry u r1)\<bar> \<le> 2 ^ 34" using b1 by simp
  ultimately show ?thesis by (simp add: js_safe_integerI)
qed

theorem ranking_arithmetic_exact_witness:
  "int4_counts (mk_row ''a'' 5 6 7) \<and> int4_counts (mk_row ''b'' (-3) 0 9) \<and>
   js_safe_integer (points (to_entry ''a'' (mk_row ''a'' 5 6 7))) \<and>
   js_safe_integer (by_points_desc (to_entry ''a'' (mk_row ''a'' 5 6 7)) (to_entry ''a'' (mk_row ''b'' (-3) 0 9)))"
proof -
  have r: "int4_counts (mk_row ''a'' 5 6 7)" "int4_counts (mk_row ''b'' (-3) 0 9)"
    by (simp_all add: int4_counts_def mk_row_def int4_column_def)
  show ?thesis using r ranking_arithmetic_exact [OF r, of "''a''"] by simp
qed

end
