(* ===== verification/Leaderboard.thy ===== *)
theory Leaderboard
  imports Ranking
begin

text \<open>
  The state and the two asynchronous effects of the \<open>Leaderboard\<close> component
  (\<open>src/src/pages/Leaderboard.jsx\<close>, lines 13--75).  On mount the component starts
  \<open>fetchUsername\<close> and, because the second effect depends on \<open>[userName]\<close>, a
  \<open>fetchLeaderboardData\<close> that captured the initial \<open>userName = ''''\<close>.  When
  \<open>setUserName\<close> changes the name, React re-runs the second effect: another fetch
  starts, capturing the new name.  Responses arrive in any order, so the component is an
  \<open>inductive\<close> step relation over its state; the backend is the world the responses
  come from and is fixed during a run.  \<open>board_pending\<close> lists the user names captured
  by the fetches still in flight, oldest first.
\<close>

record lb_state =
  leaderboardData :: "lb_entry list"
  lb_userName :: string
  name_pending :: bool
  board_pending :: "string list"

text \<open>The first render: both \<open>useState\<close> initial values, both effects started.\<close>

definition lb_mount :: lb_state where
  "lb_mount = \<lparr>leaderboardData = [], lb_userName = [], name_pending = True, board_pending = [[]]\<rparr>"

text \<open>
  \<open>fetchUsername\<close>: \<open>None\<close> where it returns without \<open>setUserName\<close> (an auth error,
  no user, a failed or non-unique row query), else the name it sets,
  \<open>userDetails?.name || 'User'\<close>.
\<close>

definition fetchUsername :: "backend \<Rightarrow> string option" where
  "fetchUsername b =
     (case get_user b of
        AuthError e \<Rightarrow> None
      | NoSession \<Rightarrow> None
      | SignedIn uid \<Rightarrow>
          (case select_single b uid of
             QError e \<Rightarrow> None
           | QOk userDetails \<Rightarrow> Some (js_or_str (col_name userDetails) ''User'')))"

text \<open>
  \<open>fetchUsername\<close> completes.  \<open>setUserName\<close> with a different name re-renders and
  re-runs the \<open>[userName]\<close> effect (a new fetch capturing the name); with the same
  name React bails out and no effect runs.
\<close>

definition username_resolved :: "backend \<Rightarrow> lb_state \<Rightarrow> lb_state" where
  "username_resolved b s =
     (let s' = s\<lparr>name_pending := False\<rparr> in
      case fetchUsername b of
        None \<Rightarrow> s'
      | Some n \<Rightarrow>
          if n = lb_userName s then s'
          else s'\<lparr>lb_userName := n, board_pending := board_pending s @ [n]\<rparr>)"

text \<open>
  \<open>fetchLeaderboardData\<close> with the captured name: \<open>None\<close> where the query fails
  (\<open>console.error\<close>, no state change), else the list it passes to
  \<open>setLeaderboardData\<close>.
\<close>

definition fetchLeaderboardData :: "backend \<Rightarrow> string \<Rightarrow> lb_entry list option" where
  "fetchLeaderboardData b userName =
     (case select_all b of
        QError e \<Rightarrow> None
      | QOk data \<Rightarrow> Some (build_leaderboard userName data))"

text \<open>The \<open>i\<close>-th fetch in flight completes.\<close>

definition board_resolved :: "backend \<Rightarrow> nat \<Rightarrow> lb_state \<Rightarrow> lb_state" where
  "board_resolved b i s =
     (let s' = s\<lparr>board_pending := take i (board_pending s) @ drop (Suc i) (board_pending s)\<rparr> in
      case fetchLeaderboardData b (board_pending s ! i) of
        None \<Rightarrow> s'
      | Some d \<Rightarrow> s'\<lparr>leaderboardData := d\<rparr>)"

inductive lb_step :: "backend \<Rightarrow> lb_state \<Rightarrow> lb_state \<Rightarrow> bool" where
  name_done: "name_pending s \<Longrightarrow> lb_step b s (username_resolved b s)"
| board_done: "i < length (board_pending s) \<Longrightarrow> lb_step b s (board_resolved b i s)"

inductive lb_reach :: "backend \<Rightarrow> lb_state \<Rightarrow> bool" for b where
  mount: "lb_reach b lb_mount"
| step: "lb_reach b s \<Longrightarrow> lb_step b s t \<Longrightarrow> lb_reach b t"

text \<open>Runs in which the fetches complete in the order they were started.\<close>

inductive lb_fifo_reach :: "backend \<Rightarrow> lb_state \<Rightarrow> bool" for b where
  mount: "lb_fifo_reach b lb_mount"
| name: "lb_fifo_reach b s \<Longrightarrow> name_pending s \<Longrightarrow> lb_fifo_reach b (username_resolved b s)"
| board: "lb_fifo_reach b s \<Longrightarrow> board_pending s \<noteq> [] \<Longrightarrow> lb_fifo_reach b (board_resolved b 0 s)"

text \<open>No response outstanding.\<close>

definition lb_quiescent :: "lb_state \<Rightarrow> bool" where
  "lb_quiescent s \<longleftrightarrow> \<not> name_pending s \<and> board_pending s = []"

text \<open>Responses still to come: two for the name fetch (it may start one more fetch).\<close>

definition lb_outstanding :: "lb_state \<Rightarrow> nat" where
  "lb_outstanding s = (if name_pending s then 2 else 0) + length (board_pending s)"

text \<open>A displayable leaderboard: ranked \<open>1..n\<close> and in descending order of points.\<close>

definition ranked_list :: "lb_entry list \<Rightarrow> bool" where
  "ranked_list es \<longleftrightarrow>
     map rank es = map Some [1..<length es + 1] \<and> sorted_wrt (\<lambda>a b. points b \<le> points a) es"

text \<open>The invariant of every reachable state: the list shown is ranked, and the name
  fetch and the leaderboard fetches in flight number at most two.\<close>

definition lb_inv :: "lb_state \<Rightarrow> bool" where
  "lb_inv s \<longleftrightarrow>
     ranked_list (leaderboardData s) \<and>
     (if name_pending s then 1 else 0) + length (board_pending s) \<le> (2::nat)"

text \<open>A sequence of steps, each from the state before.\<close>

fun lb_trace :: "backend \<Rightarrow> lb_state \<Rightarrow> lb_state list \<Rightarrow> bool" where
  "lb_trace b s [] = True"
| "lb_trace b s (t # ts) = (lb_step b s t \<and> lb_trace b t ts)"

text \<open>The invariant of in-order runs: the newest fetch carries the current name, and
  once none is in flight the list shown was built with it.\<close>

definition fifo_inv :: "backend \<Rightarrow> lb_state \<Rightarrow> bool" where
  "fifo_inv b s \<longleftrightarrow>
     (board_pending s \<noteq> [] \<longrightarrow> last (board_pending s) = lb_userName s) \<and>
     (board_pending s = [] \<longrightarrow> leaderboardData s = build_leaderboard (lb_userName s) (trackies b))"

text \<open>A backend where the signed-in user alice has a row.\<close>

definition alice_backend :: backend where
  "alice_backend = \<lparr>session = SignedIn ''alice'', trackies = [mk_row ''alice'' 3 1 0], reachable_db = True\<rparr>"

inductive_cases lb_stepE: "lb_step b s t"

lemma ranked_list_build: "ranked_list (build_leaderboard u data)"
  using rank_build_leaderboard [of u data] sorted_wrt_sort_key_points [of "map (to_entry u) data"]
  by (simp add: ranked_list_def sorted_wrt_points_map [OF points_build_leaderboard])

lemma username_resolved_data [simp]:
  "leaderboardData (username_resolved b s) = leaderboardData s"
  by (simp add: username_resolved_def Let_def split: option.splits)

lemma lb_mount_fields [simp]:
  "leaderboardData lb_mount = []" "lb_userName lb_mount = []" "name_pending lb_mount"
  "board_pending lb_mount = [[]]"
  by (simp_all add: lb_mount_def)

lemma username_resolved_frame [simp]:
  "name_pending (username_resolved b s) = False"
  "lb_userName (username_resolved b s) = (case fetchUsername b of None \<Rightarrow> lb_userName s | Some n \<Rightarrow> n)"
  "board_pending (username_resolved b s) =
     (case fetchUsername b of
        None \<Rightarrow> board_pending s
      | Some n \<Rightarrow> if n = lb_userName s then board_pending s else board_pending s @ [n])"
  by (simp_all add: username_resolved_def Let_def split: option.splits)

lemma username_resolved_pending_length:
  "length (board_pending (username_resolved b s)) \<le> Suc (length (board_pending s))"
  by (simp split: option.splits)

lemma board_resolved_frame [simp]:
  "board_pending (board_resolved b i s) = take i (board_pending s) @ drop (Suc i) (board_pending s)"
  "lb_userName (board_resolved b i s) = lb_userName s"
  "name_pending (board_resolved b i s) = name_pending s"
  "leaderboardData (board_resolved b i s) =
     (case fetchLeaderboardData b (board_pending s ! i) of None \<Rightarrow> leaderboardData s | Some d \<Rightarrow> d)"
  by (simp_all add: board_resolved_def Let_def split: option.splits)

lemma board_resolved_pending_length:
  "i < length (board_pending s) \<Longrightarrow> Suc (length (board_pending (board_resolved b i s))) = length (board_pending s)"
  by simp

lemma board_resolved_cases:
  "leaderboardData (board_resolved b i s) = leaderboardData s \<or>
   (\<exists>data. leaderboardData (board_resolved b i s) = build_leaderboard (board_pending s ! i) data)"
  by (auto simp: board_resolved_def fetchLeaderboardData_def Let_def
      split: option.splits query_result.splits)

lemma board_resolved_ranked:
  "ranked_list (leaderboardData s) \<Longrightarrow> ranked_list (leaderboardData (board_resolved b i s))"
  using board_resolved_cases [of b i s] by (auto simp: ranked_list_build)

lemma lb_step_ranked:
  "lb_step b s t \<Longrightarrow> ranked_list (leaderboardData s) \<Longrightarrow> ranked_list (leaderboardData t)"
  by (erule lb_stepE) (auto intro: board_resolved_ranked simp del: board_resolved_frame)

lemma lb_inv_mount: "lb_inv lb_mount"
  by (simp add: lb_inv_def lb_mount_def ranked_list_def)

lemma lb_step_inv: "lb_step b s t \<Longrightarrow> lb_inv s \<Longrightarrow> lb_inv t"
proof (induction rule: lb_step.induct)
  case (name_done s b)
  then show ?case
    using username_resolved_pending_length [of b s] by (simp add: lb_inv_def)
next
  case (board_done i s b)
  then show ?case
    using board_resolved_pending_length [OF board_done.hyps, of b] board_resolved_ranked [of s b i]
    by (simp only: lb_inv_def) (auto split: if_splits)
qed

lemma lb_reach_inv: "lb_reach b s \<Longrightarrow> lb_inv s"
  by (induction rule: lb_reach.induct) (simp_all add: lb_inv_mount lb_step_inv)

lemma lb_step_outstanding: "lb_step b s t \<Longrightarrow> lb_outstanding t < lb_outstanding s"
proof (induction rule: lb_step.induct)
  case (name_done s b)
  then show ?case
    using username_resolved_pending_length [of b s] by (simp add: lb_outstanding_def)
next
  case (board_done i s b)
  then show ?case
    using board_resolved_pending_length [OF board_done.hyps, of b]
    by (simp only: lb_outstanding_def) (simp split: if_splits)
qed

lemma lb_trace_length: "lb_trace b s ts \<Longrightarrow> length ts \<le> lb_outstanding s"
proof (induction ts arbitrary: s)
  case Nil
  show ?case by simp
next
  case (Cons t ts)
  then have "lb_step b s t" and "lb_trace b t ts" by simp_all
  with Cons.IH lb_step_outstanding show ?case by fastforce
qed

lemma lb_reach_outstanding: "lb_reach b s \<Longrightarrow> lb_outstanding s \<le> 3"
proof (induction rule: lb_reach.induct)
  case mount
  show ?case by (simp add: lb_outstanding_def lb_mount_def)
next
  case (step s t)
  then show ?case using lb_step_outstanding by fastforce
qed

lemma lb_mount_outstanding [simp]: "lb_outstanding lb_mount = 3"
  by (simp add: lb_outstanding_def lb_mount_def)

lemma fetchUsername_nonempty: "fetchUsername b = Some n \<Longrightarrow> n \<noteq> []"
  by (auto simp: fetchUsername_def js_or_str_nonempty split: auth_result.splits query_result.splits)

lemma fifo_inv_mount: "fifo_inv b lb_mount"
  by (simp add: fifo_inv_def lb_mount_def)

lemma fifo_inv_name: "fifo_inv b s \<Longrightarrow> fifo_inv b (username_resolved b s)"
  by (simp add: fifo_inv_def split: option.splits)

lemma fifo_inv_board:
  assumes "fifo_inv b s" and "board_pending s \<noteq> []" and "reachable_db b"
  shows "fifo_inv b (board_resolved b 0 s)"
proof -
  obtain u rest where p: "board_pending s = u # rest"
    using assms(2) by (cases "board_pending s") auto
  show ?thesis
  proof (cases "rest = []")
    case True
    with assms(1) p have "u = lb_userName s" by (simp add: fifo_inv_def)
    with True p assms(3) show ?thesis
      by (simp add: fifo_inv_def board_resolved_def fetchLeaderboardData_def select_all_def)
  next
    case False
    with assms(1) p have "last rest = lb_userName s" by (simp add: fifo_inv_def)
    with False p show ?thesis
      by (auto simp: fifo_inv_def board_resolved_def Let_def split: option.splits)
  qed
qed

lemma lb_fifo_reach_inv: "lb_fifo_reach b s \<Longrightarrow> reachable_db b \<Longrightarrow> fifo_inv b s"
  by (induction rule: lb_fifo_reach.induct) (simp_all add: fifo_inv_mount fifo_inv_name fifo_inv_board)

lemma alice_fetchUsername [simp]: "fetchUsername alice_backend = Some ''alice''"
  by (simp add: fetchUsername_def alice_backend_def get_user_def select_single_def mk_row_def)

lemma alice_select_all [simp]: "select_all alice_backend = QOk [mk_row ''alice'' 3 1 0]"
  by (simp add: select_all_def alice_backend_def)


subsection \<open>Properties of the Leaderboard component\<close>

text \<open>
  C10. In every state the component can reach, whatever order the responses come in,
  the list it renders is ranked \<open>1..n\<close> and in descending order of points.
\<close>

theorem lb_reach_ranked: "lb_reach b s \<Longrightarrow> ranked_list (leaderboardData s)"
  using lb_reach_inv [of b s] by (simp add: lb_inv_def)

theorem lb_reach_ranked_witness:
  "lb_reach alice_backend (board_resolved alice_backend 0 lb_mount) \<and>
   ranked_list (leaderboardData (board_resolved alice_backend 0 lb_mount))"
proof -
  have r: "lb_reach alice_backend (board_resolved alice_backend 0 lb_mount)"
    by (rule lb_reach.step [OF lb_reach.mount]) (rule lb_step.board_done, simp add: lb_mount_def)
  show ?thesis using r lb_reach_ranked [OF r] by simp
qed

text \<open>
  C11. The effects terminate: a run of response steps from the first render has at most
  three steps (the name response and at most two leaderboard responses).
\<close>

theorem lb_trace_terminates: "lb_trace b lb_mount ts \<Longrightarrow> length ts \<le> 3"
  using lb_trace_length [of b lb_mount ts] by simp

theorem lb_trace_terminates_witness:
  "lb_trace alice_backend lb_mount [board_resolved alice_backend 0 lb_mount] \<and>
   length [board_resolved alice_backend 0 lb_mount] \<le> 3"
proof -
  have t: "lb_trace alice_backend lb_mount [board_resolved alice_backend 0 lb_mount]"
    by (simp add: lb_step.board_done lb_mount_def)
  show ?thesis using t lb_trace_terminates [OF t] by simp
qed

text \<open>
  C12. At most two leaderboard fetches are ever in flight at once.
\<close>

theorem lb_reach_pending_bound: "lb_reach b s \<Longrightarrow> length (board_pending s) \<le> 2"
  using lb_reach_inv [of b s] by (simp add: lb_inv_def split: if_splits)

theorem lb_reach_pending_bound_witness:
  "lb_reach alice_backend (username_resolved alice_backend lb_mount) \<and>
   length (board_pending (username_resolved alice_backend lb_mount)) \<le> 2"
proof -
  have r: "lb_reach alice_backend (username_resolved alice_backend lb_mount)"
    by (rule lb_reach.step [OF lb_reach.mount]) (rule lb_step.name_done, simp add: lb_mount_def)
  show ?thesis using r lb_reach_pending_bound [OF r] by simp
qed

text \<open>
  C13. If the leaderboard fetches complete in the order they were started and the
  backend answers, then once no response is outstanding the list shown was built with
  the component's current user name.
\<close>

theorem lb_fifo_consistent:
  assumes "lb_fifo_reach b s" and "reachable_db b" and "lb_quiescent s"
  shows "leaderboardData s = build_leaderboard (lb_userName s) (trackies b)"
  using lb_fifo_reach_inv [OF assms(1,2)] assms(3) by (simp add: fifo_inv_def lb_quiescent_def)

theorem lb_fifo_consistent_witness:
  "lb_fifo_reach alice_backend
     (board_resolved alice_backend 0 (board_resolved alice_backend 0 (username_resolved alice_backend lb_mount))) \<and>
   reachable_db alice_backend \<and>
   lb_quiescent (board_resolved alice_backend 0 (board_resolved alice_backend 0 (username_resolved alice_backend lb_mount))) \<and>
   leaderboardData (board_resolved alice_backend 0 (board_resolved alice_backend 0 (username_resolved alice_backend lb_mount))) =
   build_leaderboard ''alice'' [mk_row ''alice'' 3 1 0]"
proof -
  let ?s1 = "username_resolved alice_backend lb_mount"
  let ?s3 = "board_resolved alice_backend 0 (board_resolved alice_backend 0 ?s1)"
  have s1: "board_pending ?s1 = [[], ''alice'']" "lb_userName ?s1 = ''alice''" "\<not> name_pending ?s1"
    by (simp_all add: username_resolved_def lb_mount_def)
  have r1: "lb_fifo_reach alice_backend ?s1"
    by (rule lb_fifo_reach.name [OF lb_fifo_reach.mount]) (simp add: lb_mount_def)
  have r2: "lb_fifo_reach alice_backend (board_resolved alice_backend 0 ?s1)"
    by (rule lb_fifo_reach.board [OF r1]) (simp add: s1 lb_mount_def)
  have r3: "lb_fifo_reach alice_backend ?s3"
    by (rule lb_fifo_reach.board [OF r2]) (simp add: s1)
  have db: "reachable_db alice_backend" and t: "trackies alice_backend = [mk_row ''alice'' 3 1 0]"
    by (simp_all add: alice_backend_def)
  have q: "lb_quiescent ?s3"
    by (simp add: lb_quiescent_def s1)
  have u: "lb_userName ?s3 = ''alice''" by (simp add: s1)
  show ?thesis
    using r3 db q lb_fifo_consistent [OF r3 db q] by (simp only: u t simp_thms)
qed

text \<open>
  C14. Without that order the component can end wrong: if the fetch started with the
  initial empty name completes after the one started with the resolved name, the
  component settles showing alice's own row unhighlighted, although its user name is
  alice and no response is outstanding.
\<close>

theorem lb_stale_fetch_race:
  "\<exists>s. lb_reach alice_backend s \<and> lb_quiescent s \<and> lb_userName s = ''alice'' \<and>
       map name (leaderboardData s) = [Some ''alice''] \<and> map isUser (leaderboardData s) = [False]"
proof -
  let ?s1 = "username_resolved alice_backend lb_mount"
  let ?s2 = "board_resolved alice_backend (Suc 0) ?s1"
  let ?s3 = "board_resolved alice_backend 0 ?s2"
  have s1: "board_pending ?s1 = [[], ''alice'']" "lb_userName ?s1 = ''alice''" "\<not> name_pending ?s1"
    by (simp_all add: username_resolved_def lb_mount_def)
  have s2: "board_pending ?s2 = [[]]" "lb_userName ?s2 = ''alice''" "\<not> name_pending ?s2"
    by (simp_all add: s1 lb_mount_def)
  have r1: "lb_reach alice_backend ?s1"
    by (rule lb_reach.step [OF lb_reach.mount]) (rule lb_step.name_done, simp add: lb_mount_def)
  have r2: "lb_reach alice_backend ?s2"
    by (rule lb_reach.step [OF r1]) (rule lb_step.board_done, simp add: s1 lb_mount_def)
  have r3: "lb_reach alice_backend ?s3"
    by (rule lb_reach.step [OF r2]) (rule lb_step.board_done, simp add: s1 lb_mount_def)
  have q: "lb_quiescent ?s3" and u: "lb_userName ?s3 = ''alice''"
    by (simp_all add: lb_quiescent_def s1 lb_mount_def)
  have d: "leaderboardData ?s3 = build_leaderboard [] [mk_row ''alice'' 3 1 0]"
    by (simp add: s1 lb_mount_def fetchLeaderboardData_def)
  have "map name (leaderboardData ?s3) = [Some ''alice''] \<and> map isUser (leaderboardData ?s3) = [False]"
    unfolding d by (simp add: build_leaderboard_unfold mk_row_def to_entry_def)
  with r3 q u show ?thesis by (intro exI [of _ ?s3]) simp
qed

text \<open>
  C15. When \<open>fetchUsername\<close> returns early (no session, an auth error, a failed or
  ambiguous row query), the component's user name stays the initial empty string in
  every reachable state.
\<close>

theorem lb_reach_name_unset: "lb_reach b s \<Longrightarrow> fetchUsername b = None \<Longrightarrow> lb_userName s = []"
proof (induction rule: lb_reach.induct)
  case mount
  show ?case by (simp add: lb_mount_def)
next
  case (step s t)
  then show ?case
    by (auto elim!: lb_stepE simp: username_resolved_def board_resolved_def Let_def split: option.splits)
qed

theorem lb_reach_name_unset_witness:
  "fetchUsername \<lparr>session = NoSession, trackies = [], reachable_db = True\<rparr> = None \<and>
   lb_reach \<lparr>session = NoSession, trackies = [], reachable_db = True\<rparr>
     (username_resolved \<lparr>session = NoSession, trackies = [], reachable_db = True\<rparr> lb_mount) \<and>
   lb_userName (username_resolved \<lparr>session = NoSession, trackies = [], reachable_db = True\<rparr> lb_mount) = []"
proof -
  let ?b = "\<lparr>session = NoSession, trackies = [], reachable_db = True\<rparr>"
  have n: "fetchUsername ?b = None" by (simp add: fetchUsername_def get_user_def)
  have r: "lb_reach ?b (username_resolved ?b lb_mount)"
    by (rule lb_reach.step [OF lb_reach.mount]) (rule lb_step.name_done, simp add: lb_mount_def)
  show ?thesis using n r lb_reach_name_unset [OF r n] by simp
qed

text \<open>
  C16. A signed-in user whose row has a \<open>null\<close> or empty name is called \<open>User\<close>:
  the leaderboard then highlights any row whose name is literally \<open>User\<close>.
\<close>

theorem fetchUsername_fallback:
  assumes "get_user b = SignedIn uid" and "select_single b uid = QOk r"
    and "col_name r = None \<or> col_name r = Some []"
  shows "fetchUsername b = Some ''User''"
  using assms by (auto simp: fetchUsername_def)

theorem fetchUsername_fallback_witness:
  "get_user \<lparr>session = SignedIn ''u1'', trackies = [\<lparr>user_id = ''u1'', col_name = None,
      total_squats = None, col_pushups = None, jumping_jacks = None, streak = None\<rparr>], reachable_db = True\<rparr> = SignedIn ''u1'' \<and>
   fetchUsername \<lparr>session = SignedIn ''u1'', trackies = [\<lparr>user_id = ''u1'', col_name = None,
      total_squats = None, col_pushups = None, jumping_jacks = None, streak = None\<rparr>], reachable_db = True\<rparr> = Some ''User''"
proof -
  let ?r = "\<lparr>user_id = ''u1'', col_name = None, total_squats = None, col_pushups = None,
              jumping_jacks = None, streak = None\<rparr>"
  let ?b = "\<lparr>session = SignedIn ''u1'', trackies = [?r], reachable_db = True\<rparr>"
  have g: "get_user ?b = SignedIn ''u1''" by (simp add: get_user_def)
  have q: "select_single ?b ''u1'' = QOk ?r" by (simp add: select_single_def)
  have c: "col_name ?r = None \<or> col_name ?r = Some []" by simp
  show ?thesis using g fetchUsername_fallback [OF g q c] by simp
qed

end
