(* ===== verification/LeaderboardView.thy ===== *)
theory LeaderboardView
  imports Leaderboard
begin

text \<open>
  What the \<open>Leaderboard\<close> component renders from its state
  (\<open>src/src/pages/Leaderboard.jsx\<close>, lines 77--153): \<open>getTrophyColor\<close>, the podium of
  the first three entries (\<open>leaderboardData.slice(0, 3)\<close>, its border by position and a
  crown on the first) and one row per entry (highlighted and marked \<open>(You)\<close> when
  \<open>isUser\<close>).  Markup is reduced to the values it shows and the class names it
  chooses; the React key of every card and row is the entry's \<open>rank\<close>.
\<close>

definition getTrophyColor :: "nat option \<Rightarrow> string" where
  "getTrophyColor r =
     (if r = Some 1 then ''text-yellow-500''
      else if r = Some 2 then ''text-gray-400''
      else if r = Some 3 then ''text-amber-700''
      else ''text-gray-500'')"

record podium_card =
  card_key :: "nat option"
  card_border :: string
  card_crown :: bool
  card_medal :: string
  card_name :: js_string
  card_points :: int

definition podium_border :: "nat \<Rightarrow> string" where
  "podium_border index =
     (if index = 0 then ''border-yellow-500 order-2 transform scale-100''
      else if index = 1 then ''border-gray-400 order-1 transform scale-100''
      else ''border-gray-400 order-3 transform scale-100'')"

definition podium_card_of :: "nat \<Rightarrow> lb_entry \<Rightarrow> podium_card" where
  "podium_card_of index user =
     \<lparr>card_key = rank user, card_border = podium_border index, card_crown = (index = 0),
      card_medal = getTrophyColor (rank user), card_name = name user, card_points = points user\<rparr>"

text \<open>\<open>leaderboardData.slice(0, 3).map((user, index) => ...)\<close>.\<close>

definition podium :: "lb_entry list \<Rightarrow> podium_card list" where
  "podium data = map2 podium_card_of [0..<length (take 3 data)] (take 3 data)"

record board_row =
  row_key :: "nat option"
  row_highlight :: bool
  row_rank_label :: "nat option"
  row_medal :: string
  row_name :: js_string
  row_you :: bool
  row_points :: int

definition render_row :: "lb_entry \<Rightarrow> board_row" where
  "render_row user =
     \<lparr>row_key = rank user, row_highlight = isUser user, row_rank_label = rank user,
      row_medal = getTrophyColor (rank user), row_name = name user, row_you = isUser user,
      row_points = points user\<rparr>"

record lb_view =
  view_podium :: "podium_card list"
  view_rows :: "board_row list"

definition render_leaderboard :: "lb_state \<Rightarrow> lb_view" where
  "render_leaderboard s =
     \<lparr>view_podium = podium (leaderboardData s), view_rows = map render_row (leaderboardData s)\<rparr>"

text \<open>The medal classes of ranks 1, 2 and 3.\<close>

definition podium_medals :: "string list" where
  "podium_medals = [''text-yellow-500'', ''text-gray-400'', ''text-amber-700'']"

lemma length_podium [simp]: "length (podium data) = min 3 (length data)"
  by (simp add: podium_def)

lemma podium_nth:
  "i < length (podium data) \<Longrightarrow> podium data ! i = podium_card_of i (data ! i)"
  by (simp add: podium_def)

lemma ranked_list_rank_nth:
  "ranked_list es \<Longrightarrow> i < length es \<Longrightarrow> rank (es ! i) = Some (Suc i)"
proof -
  assume "ranked_list es" and i: "i < length es"
  then have "map rank es ! i = map Some [1..<length es + 1] ! i"
    by (simp add: ranked_list_def)
  with i show ?thesis by (simp del: upt_Suc)
qed

lemma getTrophyColor_podium: "i < 3 \<Longrightarrow> getTrophyColor (Some (Suc i)) = podium_medals ! i"
  by (auto simp: getTrophyColor_def podium_medals_def numeral_3_eq_3 less_Suc_eq)

lemma map_row_key [simp]: "map row_key (map render_row es) = map rank es"
  by (induction es) (simp_all add: render_row_def)

lemma map_card_key_podium: "map card_key (podium es) = take 3 (map rank es)"
proof (rule nth_equalityI)
  show "length (map card_key (podium es)) = length (take 3 (map rank es))" by simp
next
  fix i assume "i < length (map card_key (podium es))"
  then show "map card_key (podium es) ! i = take 3 (map rank es) ! i"
    by (simp add: podium_nth podium_card_of_def)
qed

lemma ranked_list_keys:
  assumes "ranked_list es"
  shows "distinct (map rank es) \<and> None \<notin> set (map rank es)"
proof -
  from assms have e: "map rank es = map Some [1..<length es + 1]" by (simp add: ranked_list_def)
  show ?thesis unfolding e by (auto simp: distinct_map simp del: upt_Suc)
qed

subsection \<open>Properties of the view\<close>

text \<open>
  C17. For a ranked list the podium shows the first \<open>min 3 n\<close> entries, with the gold,
  silver and bronze medal classes in that order and the crown on the first card only.
\<close>

theorem podium_medals_ranked:
  assumes "ranked_list es"
  shows "length (podium es) = min 3 (length es) \<and>
         (\<forall>i < length (podium es).
            card_medal (podium es ! i) = podium_medals ! i \<and> card_crown (podium es ! i) = (i = 0))"
proof -
  have "card_medal (podium es ! i) = podium_medals ! i \<and> card_crown (podium es ! i) = (i = 0)"
    if i: "i < length (podium es)" for i
  proof -
    from i have "i < length es" and "i < 3" by simp_all
    with assms have "rank (es ! i) = Some (Suc i)" by (simp add: ranked_list_rank_nth)
    with i \<open>i < 3\<close> show ?thesis
      by (simp add: podium_nth podium_card_of_def getTrophyColor_podium)
  qed
  then show ?thesis by simp
qed

theorem podium_medals_ranked_witness:
  "ranked_list (build_leaderboard ''a'' [mk_row ''a'' 1 0 0, mk_row ''b'' 5 0 0]) \<and>
   card_medal (podium (build_leaderboard ''a'' [mk_row ''a'' 1 0 0, mk_row ''b'' 5 0 0]) ! 1) =
     ''text-gray-400''"
proof -
  have r: "ranked_list (build_leaderboard ''a'' [mk_row ''a'' 1 0 0, mk_row ''b'' 5 0 0])"
    by (rule ranked_list_build)
  from podium_medals_ranked [OF r] r show ?thesis
    by (simp add: podium_medals_def)
qed

end
