(* ===== verification/LeaderboardRuns.thy ===== *)
theory LeaderboardRuns
  imports LeaderboardView
begin

text \<open>
  Runs of the \<open>Leaderboard\<close> component beyond single steps: an executable successor
  function \<open>lb_succs\<close> equivalent to the step relation (so the states reachable from a
  concrete backend can be enumerated by evaluation), liveness (whatever the state, the
  pending responses can all arrive and the component settles), and the well-formedness
  of every entry the component stores, the shape the spec gives a \<open>RankedEntry\<close>: a
  rank between \<open>1\<close> and the list length and points equal to the score of its counts.
\<close>

definition lb_succs :: "backend \<Rightarrow> lb_state \<Rightarrow> lb_state list" where
  "lb_succs b s =
     (if name_pending s then [username_resolved b s] else []) @
     map (\<lambda>i. board_resolved b i s) [0..<length (board_pending s)]"

definition wf_entry :: "nat \<Rightarrow> lb_entry \<Rightarrow> bool" where
  "wf_entry n e \<longleftrightarrow>
     (case rank e of None \<Rightarrow> False | Some k \<Rightarrow> 1 \<le> k \<and> k \<le> n) \<and>
     points e = calculatePoints (squats e) (pushups e) (jumpingJacks e)"

definition wf_board :: "lb_entry list \<Rightarrow> bool" where
  "wf_board es \<longleftrightarrow> list_all (wf_entry (length es)) es"

text \<open>The states within \<open>n\<close> response steps of the states \<open>ss\<close>, by breadth.\<close>

fun lb_explore :: "backend \<Rightarrow> nat \<Rightarrow> lb_state list \<Rightarrow> lb_state list" where
  "lb_explore b 0 ss = ss"
| "lb_explore b (Suc n) ss = ss @ lb_explore b n (concat (map (lb_succs b) ss))"

lemma lb_step_succs: "lb_step b s t \<Longrightarrow> t \<in> set (lb_succs b s)"
  by (cases rule: lb_step.cases) (auto simp: lb_succs_def)

lemma lb_reach_rtranclp: "lb_reach b s \<Longrightarrow> (lb_step b)\<^sup>*\<^sup>* lb_mount s"
  by (induction rule: lb_reach.induct) (simp_all add: rtranclp.rtrancl_into_rtrancl)

lemma lb_explore_complete:
  "s \<in> set ss \<Longrightarrow> (lb_step b)\<^sup>*\<^sup>* s t \<Longrightarrow> lb_outstanding s \<le> n \<Longrightarrow> t \<in> set (lb_explore b n ss)"
proof (induction n arbitrary: ss s)
  case 0
  from "0.prems"(2) show ?case
  proof (cases rule: converse_rtranclpE)
    case base
    with "0.prems"(1) show ?thesis by simp
  next
    case (step s')
    with lb_step_outstanding [of b s s'] "0.prems"(3) show ?thesis by simp
  qed
next
  case (Suc n)
  from Suc.prems(2) show ?case
  proof (cases rule: converse_rtranclpE)
    case base
    with Suc.prems(1) show ?thesis by simp
  next
    case (step s')
    then have mem: "s' \<in> set (concat (map (lb_succs b) ss))"
      using Suc.prems(1) lb_step_succs by fastforce
    have out: "lb_outstanding s' \<le> n"
      using lb_step_outstanding [OF step(1)] Suc.prems(3) by simp
    from mem step(2) out have "t \<in> set (lb_explore b n (concat (map (lb_succs b) ss)))"
      by (rule Suc.IH)
    then show ?thesis by simp
  qed
qed

lemma lb_reach_explore: "lb_reach b s \<Longrightarrow> s \<in> set (lb_explore b 3 [lb_mount])"
  by (rule lb_explore_complete [OF _ lb_reach_rtranclp]) simp_all

lemma alice_settled_outcomes:
  "set (map leaderboardData (filter lb_quiescent (lb_explore alice_backend 3 [lb_mount]))) =
   {build_leaderboard ''alice'' [mk_row ''alice'' 3 1 0], build_leaderboard [] [mk_row ''alice'' 3 1 0]}"
  by (simp add: lb_succs_def lb_quiescent_def username_resolved_def board_resolved_def Let_def
      fetchLeaderboardData_def insert_commute numeral_3_eq_3)

lemma lb_progress: "\<not> lb_quiescent s \<Longrightarrow> \<exists>t. lb_step b s t"
proof -
  assume "\<not> lb_quiescent s"
  then consider "name_pending s" | "board_pending s \<noteq> []" by (auto simp: lb_quiescent_def)
  then show ?thesis
  proof cases
    case 1
    then show ?thesis by (blast intro: lb_step.name_done)
  next
    case 2
    then have "0 < length (board_pending s)" by simp
    then show ?thesis by (blast intro: lb_step.board_done)
  qed
qed

lemma lb_settles:
  "lb_outstanding s \<le> n \<Longrightarrow> \<exists>t. (lb_step b)\<^sup>*\<^sup>* s t \<and> lb_quiescent t"
proof (induction n arbitrary: s)
  case 0
  then have "lb_quiescent s"
    by (auto simp: lb_outstanding_def lb_quiescent_def split: if_splits)
  then show ?case by blast
next
  case (Suc n)
  show ?case
  proof (cases "lb_quiescent s")
    case True
    then show ?thesis by blast
  next
    case False
    then obtain t where st: "lb_step b s t" using lb_progress by blast
    with Suc.prems have "lb_outstanding t \<le> n" using lb_step_outstanding by fastforce
    with Suc.IH obtain u where "(lb_step b)\<^sup>*\<^sup>* t u" and "lb_quiescent u" by blast
    with st show ?thesis by (blast intro: converse_rtranclp_into_rtranclp)
  qed
qed

lemma unranked_counts [simp]:
  "squats (unranked e) = squats e" "pushups (unranked e) = pushups e"
  "jumpingJacks (unranked e) = jumpingJacks e"
  by (simp_all add: unranked_def)

lemma build_leaderboard_points_consistent:
  assumes "e \<in> set (build_leaderboard u data)"
  shows "points e = calculatePoints (squats e) (pushups e) (jumpingJacks e)"
proof -
  from assms have "unranked e \<in> set (map unranked (build_leaderboard u data))" by simp
  then have "unranked e \<in> to_entry u ` set data"
    by (simp only: map_unranked_build_leaderboard set_sort set_map)
  then obtain r where r: "unranked e = to_entry u r" by blast
  have "points (unranked e) =
        calculatePoints (squats (unranked e)) (pushups (unranked e)) (jumpingJacks (unranked e))"
    by (simp only: r) (simp add: to_entry_def)
  then show ?thesis by simp
qed

lemma wf_board_build: "wf_board (build_leaderboard u data)"
proof -
  let ?es = "build_leaderboard u data"
  have r: "ranked_list ?es" by (rule ranked_list_build)
  have "wf_entry (length ?es) (?es ! i)" if i: "i < length ?es" for i
  proof -
    from r i have "rank (?es ! i) = Some (Suc i)" by (rule ranked_list_rank_nth)
    moreover from i have "?es ! i \<in> set ?es" by (rule nth_mem)
    then have "points (?es ! i) = calculatePoints (squats (?es ! i)) (pushups (?es ! i)) (jumpingJacks (?es ! i))"
      by (rule build_leaderboard_points_consistent)
    ultimately show ?thesis using i by (simp add: wf_entry_def)
  qed
  then show ?thesis by (simp add: wf_board_def list_all_length)
qed

lemma lb_step_wf:
  "lb_step b s t \<Longrightarrow> wf_board (leaderboardData s) \<Longrightarrow> wf_board (leaderboardData t)"
proof (induction rule: lb_step.induct)
  case (name_done s b)
  then show ?case by simp
next
  case (board_done i s b)
  then show ?case
    using board_resolved_cases [of b i s] by (auto simp del: board_resolved_frame simp: wf_board_build)
qed

subsection \<open>Properties of runs\<close>

text \<open>
  C25. Liveness: from every state of the component, whatever the backend, the responses
  still outstanding can arrive so that the component settles with nothing pending.
\<close>

theorem lb_eventually_settles: "\<exists>t. (lb_step b)\<^sup>*\<^sup>* s t \<and> lb_quiescent t"
  by (rule lb_settles [OF order_refl])

text \<open>
  C26. Every entry the component stores, in every reachable state, is a well-formed
  ranked entry: its rank is defined and between 1 and the length of the list, and its
  points are the score of the counts it carries.
\<close>

theorem lb_reach_wf_board: "lb_reach b s \<Longrightarrow> wf_board (leaderboardData s)"
proof (induction rule: lb_reach.induct)
  case mount
  show ?case by (simp add: wf_board_def)
next
  case (step s t)
  from step.hyps(2) step.IH show ?case by (rule lb_step_wf)
qed

theorem lb_reach_wf_board_witness:
  "lb_reach alice_backend (board_resolved alice_backend 0 lb_mount) \<and>
   wf_board (leaderboardData (board_resolved alice_backend 0 lb_mount))"
proof -
  have r: "lb_reach alice_backend (board_resolved alice_backend 0 lb_mount)"
    by (rule lb_reach.step [OF lb_reach.mount]) (rule lb_step.board_done, simp)
  show ?thesis using r lb_reach_wf_board [OF r] by simp
qed


text \<open>The two ways the one-row backend can settle: every fetch in start order, and
  the fetch captured with the empty name arriving last.\<close>

lemma alice_in_order_run:
  "lb_reach alice_backend (board_resolved alice_backend 0 (username_resolved alice_backend
     (board_resolved alice_backend 0 lb_mount))) \<and>
   lb_quiescent (board_resolved alice_backend 0 (username_resolved alice_backend
     (board_resolved alice_backend 0 lb_mount))) \<and>
   leaderboardData (board_resolved alice_backend 0 (username_resolved alice_backend
     (board_resolved alice_backend 0 lb_mount))) = build_leaderboard ''alice'' [mk_row ''alice'' 3 1 0]"
proof -
  let ?s1 = "board_resolved alice_backend 0 lb_mount"
  let ?s2 = "username_resolved alice_backend ?s1"
  have r1: "lb_reach alice_backend ?s1"
    by (rule lb_reach.step [OF lb_reach.mount]) (rule lb_step.board_done, simp)
  have r2: "lb_reach alice_backend ?s2"
    by (rule lb_reach.step [OF r1]) (rule lb_step.name_done, simp)
  have r3: "lb_reach alice_backend (board_resolved alice_backend 0 ?s2)"
    by (rule lb_reach.step [OF r2]) (rule lb_step.board_done, simp)
  then show ?thesis by (simp add: lb_quiescent_def fetchLeaderboardData_def)
qed

lemma alice_late_stale_run:
  "lb_reach alice_backend (board_resolved alice_backend 0 (board_resolved alice_backend (Suc 0)
     (username_resolved alice_backend lb_mount))) \<and>
   lb_quiescent (board_resolved alice_backend 0 (board_resolved alice_backend (Suc 0)
     (username_resolved alice_backend lb_mount))) \<and>
   leaderboardData (board_resolved alice_backend 0 (board_resolved alice_backend (Suc 0)
     (username_resolved alice_backend lb_mount))) = build_leaderboard [] [mk_row ''alice'' 3 1 0]"
proof -
  let ?s1 = "username_resolved alice_backend lb_mount"
  let ?s2 = "board_resolved alice_backend (Suc 0) ?s1"
  have p1: "board_pending ?s1 = [[], ''alice'']" by (simp add: lb_mount_def)
  have r1: "lb_reach alice_backend ?s1"
    by (rule lb_reach.step [OF lb_reach.mount]) (rule lb_step.name_done, simp)
  have r2: "lb_reach alice_backend ?s2"
    by (rule lb_reach.step [OF r1]) (rule lb_step.board_done, simp add: p1)
  have r3: "lb_reach alice_backend (board_resolved alice_backend 0 ?s2)"
    by (rule lb_reach.step [OF r2]) (rule lb_step.board_done, simp add: p1)
  then show ?thesis by (simp add: lb_quiescent_def p1 fetchLeaderboardData_def)
qed

text \<open>
  C27. Exhaustively, for a backend where alice is signed in and has the only row, the
  lists the component can settle on are exactly two: the correct list (her row
  flagged) and the stale list built for the empty name.  Both occur, and nothing else.
\<close>

theorem lb_alice_outcomes:
  "{leaderboardData s |s. lb_reach alice_backend s \<and> lb_quiescent s} =
   {build_leaderboard ''alice'' [mk_row ''alice'' 3 1 0], build_leaderboard [] [mk_row ''alice'' 3 1 0]}"
proof (rule equalityI)
  show "{leaderboardData s |s. lb_reach alice_backend s \<and> lb_quiescent s} \<subseteq>
        {build_leaderboard ''alice'' [mk_row ''alice'' 3 1 0], build_leaderboard [] [mk_row ''alice'' 3 1 0]}"
  proof
    fix x assume "x \<in> {leaderboardData s |s. lb_reach alice_backend s \<and> lb_quiescent s}"
    then obtain s where x: "x = leaderboardData s" and r: "lb_reach alice_backend s"
      and q: "lb_quiescent s" by blast
    have "x \<in> set (map leaderboardData (filter lb_quiescent (lb_explore alice_backend 3 [lb_mount])))"
      using lb_reach_explore [OF r] q x by simp
    then show "x \<in> {build_leaderboard ''alice'' [mk_row ''alice'' 3 1 0],
                    build_leaderboard [] [mk_row ''alice'' 3 1 0]}"
      by (simp only: alice_settled_outcomes)
  qed
next
  show "{build_leaderboard ''alice'' [mk_row ''alice'' 3 1 0], build_leaderboard [] [mk_row ''alice'' 3 1 0]}
        \<subseteq> {leaderboardData s |s. lb_reach alice_backend s \<and> lb_quiescent s}"
  proof -
    let ?S = "{leaderboardData s |s. lb_reach alice_backend s \<and> lb_quiescent s}"
    have m: "leaderboardData s \<in> ?S" if "lb_reach alice_backend s" "lb_quiescent s" for s
      using that by blast
    have "build_leaderboard ''alice'' [mk_row ''alice'' 3 1 0] \<in> ?S"
      using m [OF conjunct1 [OF alice_in_order_run] conjunct1 [OF conjunct2 [OF alice_in_order_run]]]
        conjunct2 [OF conjunct2 [OF alice_in_order_run]] by (simp only:)
    moreover have "build_leaderboard [] [mk_row ''alice'' 3 1 0] \<in> ?S"
      using m [OF conjunct1 [OF alice_late_stale_run] conjunct1 [OF conjunct2 [OF alice_late_stale_run]]]
        conjunct2 [OF conjunct2 [OF alice_late_stale_run]] by (simp only:)
    ultimately show ?thesis by (simp only: insert_subset empty_subsetI simp_thms)
  qed
qed

text \<open>
  C29. Error path of \<open>fetchLeaderboardData\<close>: when the service does not answer, the
  query's error is thrown, caught and logged, and \<open>setLeaderboardData\<close> is never
  called, so no response step changes the list shown.  The list is not cleared: a list
  stored before the failure (possibly built for another user name) stays on screen.
\<close>

theorem lb_step_fetch_failure_keeps_board:
  assumes "lb_step b s t" and "\<not> reachable_db b"
  shows "leaderboardData t = leaderboardData s"
  using assms
  by (induction rule: lb_step.induct) (simp_all add: fetchLeaderboardData_def select_all_def)

theorem lb_step_fetch_failure_keeps_board_witness:
  "lb_step (alice_backend\<lparr>reachable_db := False\<rparr>)
     \<lparr>leaderboardData = build_leaderboard [] [mk_row ''alice'' 3 1 0], lb_userName = ''alice'',
      name_pending = False, board_pending = [''alice'']\<rparr>
     (board_resolved (alice_backend\<lparr>reachable_db := False\<rparr>) 0
       \<lparr>leaderboardData = build_leaderboard [] [mk_row ''alice'' 3 1 0], lb_userName = ''alice'',
        name_pending = False, board_pending = [''alice'']\<rparr>) \<and>
   \<not> reachable_db (alice_backend\<lparr>reachable_db := False\<rparr>) \<and>
   lb_quiescent (board_resolved (alice_backend\<lparr>reachable_db := False\<rparr>) 0
       \<lparr>leaderboardData = build_leaderboard [] [mk_row ''alice'' 3 1 0], lb_userName = ''alice'',
        name_pending = False, board_pending = [''alice'']\<rparr>) \<and>
   leaderboardData (board_resolved (alice_backend\<lparr>reachable_db := False\<rparr>) 0
       \<lparr>leaderboardData = build_leaderboard [] [mk_row ''alice'' 3 1 0], lb_userName = ''alice'',
        name_pending = False, board_pending = [''alice'']\<rparr>) = build_leaderboard [] [mk_row ''alice'' 3 1 0] \<and>
   build_leaderboard [] [mk_row ''alice'' 3 1 0] \<noteq> []"
proof -
  let ?b = "alice_backend\<lparr>reachable_db := False\<rparr>"
  let ?s = "\<lparr>leaderboardData = build_leaderboard [] [mk_row ''alice'' 3 1 0], lb_userName = ''alice'',
             name_pending = False, board_pending = [''alice'']\<rparr>"
  have st: "lb_step ?b ?s (board_resolved ?b 0 ?s)" by (rule lb_step.board_done) simp
  have nr: "\<not> reachable_db ?b" by simp
  have "length (build_leaderboard [] [mk_row ''alice'' 3 1 0]) = 1"
    by (simp add: length_build_leaderboard)
  then have ne: "build_leaderboard [] [mk_row ''alice'' 3 1 0] \<noteq> []" by (metis length_0_conv zero_neq_one)
  have q: "lb_quiescent (board_resolved ?b 0 ?s)" by (simp add: lb_quiescent_def)
  show ?thesis using st nr q ne lb_step_fetch_failure_keeps_board [OF st nr] by simp
qed

end
