(* ===== verification/TopNav.thy ===== *)
theory TopNav
  imports Backend
begin

text \<open>
  The \<open>TopNav\<close> component (\<open>src/src/pages/TopNav.jsx\<close>): its state (user name, streak,
  whether the profile popup is open), the mount effect \<open>fetchUserData\<close> (lines 10--38),
  the profile button that toggles the popup (line 52) and \<open>handleLogout\<close> (lines
  40--43), which attempts the sign-out, ignores its result and reloads the page.  The logout button exists only inside
  the open popup.  Events are a \<open>datatype\<close>; a step is \<open>None\<close> where the event cannot
  happen (no such button, no fetch in flight).  The reload remounts the component, so
  the state returns to the first render with the mount fetch in flight again.
\<close>

record topnav_state =
  tn_userName :: string
  tn_streak :: int
  showProfilePopup :: bool
  tn_fetch_pending :: bool

definition topnav_mount :: topnav_state where
  "topnav_mount = \<lparr>tn_userName = [], tn_streak = 0, showProfilePopup = False, tn_fetch_pending = True\<rparr>"

text \<open>\<open>fetchUserData\<close>: \<open>None\<close> where it returns early, else the name and streak it sets.\<close>

definition fetchUserData :: "backend \<Rightarrow> (string \<times> int) option" where
  "fetchUserData b =
     (case get_user b of
        AuthError e \<Rightarrow> None
      | NoSession \<Rightarrow> None
      | SignedIn uid \<Rightarrow>
          (case select_single b uid of
             QError e \<Rightarrow> None
           | QOk userDetails \<Rightarrow>
               Some (js_or_str (col_name userDetails) ''User'', js_or_int (streak userDetails) 0)))"

definition fetch_user_done :: "backend \<Rightarrow> topnav_state \<Rightarrow> topnav_state" where
  "fetch_user_done b s =
     (case fetchUserData b of
        None \<Rightarrow> s\<lparr>tn_fetch_pending := False\<rparr>
      | Some (n, k) \<Rightarrow> s\<lparr>tn_userName := n, tn_streak := k, tn_fetch_pending := False\<rparr>)"

definition toggle_profile :: "topnav_state \<Rightarrow> topnav_state" where
  "toggle_profile s = s\<lparr>showProfilePopup := \<not> showProfilePopup s\<rparr>"

text \<open>
  \<open>await supabase.auth.signOut(); window.location.reload();\<close>: the \<open>{error}\<close> the
  sign-out resolves to is discarded and the page reloads in every case.
\<close>

definition handleLogout :: "backend \<Rightarrow> topnav_state \<Rightarrow> backend \<times> topnav_state" where
  "handleLogout b s = (case signOut b of (b', _) \<Rightarrow> (b', topnav_mount))"

datatype tn_event = FetchUserDataDone | ClickProfile | ClickLogout

fun tn_step :: "backend \<times> topnav_state \<Rightarrow> tn_event \<Rightarrow> (backend \<times> topnav_state) option" where
  "tn_step (b, s) FetchUserDataDone =
     (if tn_fetch_pending s then Some (b, fetch_user_done b s) else None)"
| "tn_step (b, s) ClickProfile = Some (b, toggle_profile s)"
| "tn_step (b, s) ClickLogout = (if showProfilePopup s then Some (handleLogout b s) else None)"

fun tn_run :: "backend \<times> topnav_state \<Rightarrow> tn_event list \<Rightarrow> (backend \<times> topnav_state) option" where
  "tn_run bs [] = Some bs"
| "tn_run bs (e # es) = (case tn_step bs e of None \<Rightarrow> None | Some bs' \<Rightarrow> tn_run bs' es)"

record topnav_view =
  welcome_line :: string
  popup_name :: "string option"
  streak_shown :: int

definition render_topnav :: "topnav_state \<Rightarrow> topnav_view" where
  "render_topnav s =
     \<lparr>welcome_line = ''Welcome '' @ tn_userName s @ ''!'',
      popup_name = (if showProfilePopup s then Some (tn_userName s) else None),
      streak_shown = tn_streak s\<rparr>"

lemma js_or_int_zero: "js_or_int v 0 = to_number v"
  by (cases v) simp_all

lemma tn_run_profile_clicks:
  "tn_run (b, s) (replicate n ClickProfile) =
   Some (b, s\<lparr>showProfilePopup := (if even n then showProfilePopup s else \<not> showProfilePopup s)\<rparr>)"
  by (induction n arbitrary: s) (simp_all add: toggle_profile_def)

subsection \<open>Properties of TopNav\<close>

text \<open>
  C18. Clicking the profile button \<open>n\<close> times leaves the popup as it was for even
  \<open>n\<close> and flips it for odd \<open>n\<close>, changing nothing else.
\<close>

theorem tn_profile_clicks_parity:
  "tn_run (b, s) (replicate n ClickProfile) =
   Some (b, s\<lparr>showProfilePopup := (showProfilePopup s \<longleftrightarrow> even n)\<rparr>)"
  using tn_run_profile_clicks [of b s n] by auto

text \<open>
  C19. Logging out from the open popup while the service answers ends the session and
  reloads: when the remounted component's fetch completes it shows no user name, a zero
  streak and a closed popup.
\<close>

theorem tn_logout_clears:
  assumes "showProfilePopup s" and "reachable_db b"
  shows "tn_run (b, s) [ClickLogout, FetchUserDataDone] =
         Some (b\<lparr>session := NoSession\<rparr>,
               \<lparr>tn_userName = [], tn_streak = 0, showProfilePopup = False, tn_fetch_pending = False\<rparr>)"
  using assms
  by (simp add: handleLogout_def signOut_def topnav_mount_def fetch_user_done_def fetchUserData_def
      get_user_def)

theorem tn_logout_clears_witness:
  "showProfilePopup (toggle_profile topnav_mount) \<and>
   reachable_db \<lparr>session = SignedIn ''u'', trackies = [], reachable_db = True\<rparr> \<and>
   tn_run (\<lparr>session = SignedIn ''u'', trackies = [], reachable_db = True\<rparr>, toggle_profile topnav_mount)
     [ClickLogout, FetchUserDataDone] =
   Some (\<lparr>session = NoSession, trackies = [], reachable_db = True\<rparr>,
         \<lparr>tn_userName = [], tn_streak = 0, showProfilePopup = False, tn_fetch_pending = False\<rparr>)"
proof -
  have p: "showProfilePopup (toggle_profile topnav_mount)"
    by (simp add: toggle_profile_def topnav_mount_def)
  show ?thesis
    using p tn_logout_clears [OF p, of "\<lparr>session = SignedIn ''u'', trackies = [], reachable_db = True\<rparr>"]
    by simp
qed

text \<open>
  C20. The streak shown after the fetch is the row's streak with \<open>null\<close> as 0
  (\<open>streak || 0\<close> coerces exactly like arithmetic would).
\<close>

theorem tn_fetch_streak:
  assumes "get_user b = SignedIn uid" and "select_single b uid = QOk r"
  shows "tn_streak (fetch_user_done b s) = to_number (streak r)"
  using assms by (simp add: fetch_user_done_def fetchUserData_def js_or_int_zero)

theorem tn_fetch_streak_witness:
  "get_user \<lparr>session = SignedIn ''u'', trackies = [\<lparr>user_id = ''u'', col_name = Some ''Ann'',
      total_squats = None, col_pushups = None, jumping_jacks = None, streak = Some 4\<rparr>], reachable_db = True\<rparr>
     = SignedIn ''u'' \<and>
   tn_streak (fetch_user_done \<lparr>session = SignedIn ''u'', trackies = [\<lparr>user_id = ''u'', col_name = Some ''Ann'',
      total_squats = None, col_pushups = None, jumping_jacks = None, streak = Some 4\<rparr>], reachable_db = True\<rparr>
     topnav_mount) = 4"
proof -
  let ?r = "\<lparr>user_id = ''u'', col_name = Some ''Ann'', total_squats = None, col_pushups = None,
             jumping_jacks = None, streak = Some 4\<rparr>"
  let ?b = "\<lparr>session = SignedIn ''u'', trackies = [?r], reachable_db = True\<rparr>"
  have g: "get_user ?b = SignedIn ''u''" by (simp add: get_user_def)
  have q: "select_single ?b ''u'' = QOk ?r" by (simp add: select_single_def)
  show ?thesis using g tn_fetch_streak [OF g q, of topnav_mount] by simp
qed

text \<open>
  C30. What a click on Logout does, on both outcomes of the sign-out.  The page
  reloads in every case, because \<open>handleLogout\<close> never looks at the \<open>{error}\<close>
  \<open>signOut\<close> resolves to.  The session ends exactly when the service answers, or when
  nobody was signed in.  Otherwise the backend is left as it was, the user still signed
  in, and no message is shown.
\<close>

theorem tn_logout_outcomes:
  assumes "tn_step (b, s) ClickLogout = Some (b', t')"
  shows "t' = topnav_mount \<and>
         (if session b = NoSession \<or> reachable_db b then b' = b\<lparr>session := NoSession\<rparr> else b' = b)"
  using assms by (auto simp: handleLogout_def signOut_def split: if_splits)

theorem tn_logout_outcomes_witness:
  "tn_step (\<lparr>session = SignedIn ''u'', trackies = [], reachable_db = False\<rparr>, toggle_profile topnav_mount)
     ClickLogout = Some (\<lparr>session = SignedIn ''u'', trackies = [], reachable_db = False\<rparr>, topnav_mount) \<and>
   session \<lparr>session = SignedIn ''u'', trackies = [], reachable_db = False\<rparr> = SignedIn ''u''"
proof -
  let ?b = "\<lparr>session = SignedIn ''u'', trackies = [], reachable_db = False\<rparr>"
  have st: "tn_step (?b, toggle_profile topnav_mount) ClickLogout = Some (?b, topnav_mount)"
    by (simp add: toggle_profile_def topnav_mount_def handleLogout_def signOut_def)
  have "topnav_mount = topnav_mount \<and> ?b = ?b" using tn_logout_outcomes [OF st] by simp
  with st show ?thesis by simp
qed

end
