(* ===== verification/Sidebar.thy ===== *)
theory Sidebar
  imports Prelude
begin

text \<open>
  The \<open>Sidebar\<close> component (\<open>src/src/pages/Sidebar.jsx\<close>): a fixed menu of nine
  items, rendered as buttons whose class marks the one equal to the parent's
  \<open>activeTab\<close>, with a \<open>New\<close> badge on the inbox, and a special button.  The
  component keeps no state: a click calls the parent's \<open>setActiveTab\<close> with the item's
  id (or \<open>'special'\<close>), which \<open>sidebar_handle\<close> returns as the new active tab.
\<close>

datatype icon = Home | Inbox | Users | Calendar | Activity | Award | BarChart2

record menu_item =
  item_id :: string
  item_label :: string
  item_icon :: icon

definition menuItems :: "menu_item list" where
  "menuItems =
     [\<lparr>item_id = ''home'', item_label = ''Home'', item_icon = Home\<rparr>,
      \<lparr>item_id = ''inbox'', item_label = ''Inbox'', item_icon = Inbox\<rparr>,
      \<lparr>item_id = ''connection'', item_label = ''Connection'', item_icon = Users\<rparr>,
      \<lparr>item_id = ''calendar'', item_label = ''Event Calendar'', item_icon = Calendar\<rparr>,
      \<lparr>item_id = ''pose'', item_label = ''Pose Correction'', item_icon = Activity\<rparr>,
      \<lparr>item_id = ''challenges'', item_label = ''Challenges'', item_icon = Award\<rparr>,
      \<lparr>item_id = ''analytics'', item_label = ''Analytics'', item_icon = BarChart2\<rparr>,
      \<lparr>item_id = ''workout'', item_label = ''Workout Library'', item_icon = Activity\<rparr>,
      \<lparr>item_id = ''profile'', item_label = ''Profile'', item_icon = Users\<rparr>]"

record menu_button =
  btn_id :: string
  btn_label :: string
  btn_icon :: icon
  btn_active :: bool
  btn_badge :: bool

definition menu_button_of :: "string \<Rightarrow> menu_item \<Rightarrow> menu_button" where
  "menu_button_of activeTab item =
     \<lparr>btn_id = item_id item, btn_label = item_label item, btn_icon = item_icon item,
      btn_active = (activeTab = item_id item), btn_badge = (item_id item = ''inbox'')\<rparr>"

definition sidebar_view :: "string \<Rightarrow> menu_button list" where
  "sidebar_view activeTab = map (menu_button_of activeTab) menuItems"

datatype sidebar_event = ClickItem string | ClickSpecial

text \<open>The tab a click selects; \<open>None\<close> for an item the menu does not have.\<close>

definition sidebar_handle :: "sidebar_event \<Rightarrow> string option" where
  "sidebar_handle e =
     (case e of
        ClickItem i \<Rightarrow> if i \<in> set (map item_id menuItems) then Some i else None
      | ClickSpecial \<Rightarrow> Some ''special'')"

lemma menu_ids_distinct: "distinct (map item_id menuItems)"
  by (simp add: menuItems_def)

lemma active_buttons:
  "map btn_id (filter btn_active (sidebar_view a)) = filter (\<lambda>i. i = a) (map item_id menuItems)"
  by (simp add: sidebar_view_def menuItems_def menu_button_of_def)

lemma filter_eq_distinct:
  "distinct xs \<Longrightarrow> filter (\<lambda>i. i = a) xs = (if a \<in> set xs then [a] else [])"
  by (induction xs) auto

subsection \<open>Properties of the Sidebar\<close>

text \<open>
  C21. Exactly the button of the active tab is highlighted: one button when the tab is a
  menu item, none otherwise.
\<close>

theorem sidebar_single_active:
  "map btn_id (filter btn_active (sidebar_view activeTab)) =
   (if activeTab \<in> set (map item_id menuItems) then [activeTab] else [])"
  by (simp only: active_buttons filter_eq_distinct [OF menu_ids_distinct])

end
