(* ===== verification/Dashboard.thy ===== *)
theory Dashboard
  imports LeaderboardRuns TopNav Sidebar
begin

text \<open>
  The three pages on one screen, sharing the backend.  The page that lays them out and
  owns \<open>activeTab\<close> is not among the sources; its initial tab is the parameter
  \<open>tab0\<close>, and all three pages are taken to be mounted whatever the active tab.
  A step is one of: a Leaderboard response (\<open>lb_step\<close>), a TopNav event other than
  logout (\<open>tn_step\<close>), a logout, a sidebar click (\<open>sidebar_handle\<close>), or a change of
  the backend by someone else: the table edited (rows added, renamed, counts changed),
  the service going down or up, or the session ending or changing outside the page
  (expiry, a sign-out in another tab).  A logout is \<open>handleLogout\<close>'s
  \<open>window.location.reload()\<close> (TopNav.jsx line 42): the whole page loads again, so
  the screen is mounted afresh (\<open>dash_mount\<close>) on the backend the sign-out left, and
  every pending response is dropped.  Unlike the component relation of
  \<open>Leaderboard\<close>, responses here read the backend as it is when they arrive.
\<close>

record dash_state =
  world :: backend
  lb :: lb_state
  tn :: topnav_state
  activeTab :: string

definition dash_mount :: "backend \<Rightarrow> string \<Rightarrow> dash_state" where
  "dash_mount b tab0 = \<lparr>world = b, lb = lb_mount, tn = topnav_mount, activeTab = tab0\<rparr>"

inductive dash_step :: "string \<Rightarrow> dash_state \<Rightarrow> dash_state \<Rightarrow> bool" for tab0 where
  leaderboard: "lb_step (world d) (lb d) l' \<Longrightarrow> dash_step tab0 d (d\<lparr>lb := l'\<rparr>)"
| topnav: "tn_step (world d, tn d) e = Some (b', t') \<Longrightarrow> e \<noteq> ClickLogout \<Longrightarrow>
    dash_step tab0 d (d\<lparr>world := b', tn := t'\<rparr>)"
| logout: "tn_step (world d, tn d) ClickLogout = Some (b', t') \<Longrightarrow>
    dash_step tab0 d (dash_mount b' tab0)"
| sidebar: "sidebar_handle e = Some tab \<Longrightarrow> dash_step tab0 d (d\<lparr>activeTab := tab\<rparr>)"
| table_edit: "dash_step tab0 d (d\<lparr>world := (world d)\<lparr>trackies := rows\<rparr>\<rparr>)"
| service: "dash_step tab0 d (d\<lparr>world := (world d)\<lparr>reachable_db := up\<rparr>\<rparr>)"
| session_change: "dash_step tab0 d (d\<lparr>world := (world d)\<lparr>session := a\<rparr>\<rparr>)"

inductive dash_reach :: "string \<Rightarrow> backend \<Rightarrow> dash_state \<Rightarrow> bool" for tab0 b0 where
  mount: "dash_reach tab0 b0 (dash_mount b0 tab0)"
| step: "dash_reach tab0 b0 d \<Longrightarrow> dash_step tab0 d d' \<Longrightarrow> dash_reach tab0 b0 d'"

text \<open>Nothing outstanding on the screen.\<close>

definition dash_settled :: "dash_state \<Rightarrow> bool" where
  "dash_settled d \<longleftrightarrow> lb_quiescent (lb d) \<and> \<not> tn_fetch_pending (tn d)"

subsection \<open>Single moves of the screen\<close>

text \<open>One lemma per kind of move, stated on the state it starts from, so that a run of
  the screen is a chain of \<open>dash_reach.step\<close> over them.\<close>

lemma dash_move_profile: "dash_step tab0 d (d\<lparr>tn := toggle_profile (tn d)\<rparr>)"
  using dash_step.topnav [of d ClickProfile "world d" "toggle_profile (tn d)" tab0] by simp

lemma dash_move_fetch:
  "tn_fetch_pending (tn d) \<Longrightarrow> dash_step tab0 d (d\<lparr>tn := fetch_user_done (world d) (tn d)\<rparr>)"
  using dash_step.topnav [of d FetchUserDataDone "world d" "fetch_user_done (world d) (tn d)" tab0]
  by simp

lemma dash_move_logout:
  "showProfilePopup (tn d) \<Longrightarrow> dash_step tab0 d (dash_mount (fst (signOut (world d))) tab0)"
  by (rule dash_step.logout [where t' = topnav_mount]) (simp add: handleLogout_def split: prod.splits)

lemma dash_move_name:
  "name_pending (lb d) \<Longrightarrow> dash_step tab0 d (d\<lparr>lb := username_resolved (world d) (lb d)\<rparr>)"
  by (rule dash_step.leaderboard) (rule lb_step.name_done)

lemma dash_move_board:
  "i < length (board_pending (lb d)) \<Longrightarrow> dash_step tab0 d (d\<lparr>lb := board_resolved (world d) i (lb d)\<rparr>)"
  by (rule dash_step.leaderboard) (rule lb_step.board_done)

lemma dash_move_service: "dash_step tab0 d (d\<lparr>world := (world d)\<lparr>reachable_db := up\<rparr>\<rparr>)"
  by (rule dash_step.service)

lemma dash_move_edit: "dash_step tab0 d (d\<lparr>world := (world d)\<lparr>trackies := rows\<rparr>\<rparr>)"
  by (rule dash_step.table_edit)

lemmas dash_moves = dash_move_profile dash_move_fetch dash_move_logout dash_move_name
  dash_move_board dash_move_service dash_move_edit dash_step.session_change

lemma alice_fetchUserData: "fetchUserData alice_backend = Some (''alice'', 0)"
  by (simp add: fetchUserData_def alice_backend_def get_user_def select_single_def mk_row_def)

lemma alice_mount_fetch:
  "\<not> tn_fetch_pending (fetch_user_done alice_backend topnav_mount) \<and>
   tn_userName (fetch_user_done alice_backend topnav_mount) = ''alice''"
  by (simp add: fetch_user_done_def alice_fetchUserData topnav_mount_def)

subsection \<open>Properties of the composed screen\<close>

text \<open>
  C28. The two components keep separate copies of the user name: if the user's row is
  renamed between TopNav's fetch and the Leaderboard's, the screen settles completely
  (no response outstanding) with TopNav welcoming \<open>alice\<close> while the Leaderboard holds
  \<open>Alicia\<close> and marks the row named \<open>Alicia\<close> as the user's.
\<close>

theorem dash_names_can_diverge:
  "\<exists>d. dash_reach tab0 alice_backend d \<and> dash_settled d \<and>
       tn_userName (tn d) = ''alice'' \<and> lb_userName (lb d) = ''Alicia'' \<and>
       map name (leaderboardData (lb d)) = [Some ''Alicia''] \<and>
       map isUser (leaderboardData (lb d)) = [True]"
proof -
  let ?row = "(mk_row ''alice'' 3 1 0)\<lparr>col_name := Some ''Alicia''\<rparr>"
  let ?d0 = "dash_mount alice_backend tab0"
  let ?d1 = "?d0\<lparr>tn := fetch_user_done (world ?d0) (tn ?d0)\<rparr>"
  let ?d2 = "?d1\<lparr>world := (world ?d1)\<lparr>trackies := [?row]\<rparr>\<rparr>"
  let ?d3 = "?d2\<lparr>lb := username_resolved (world ?d2) (lb ?d2)\<rparr>"
  let ?d4 = "?d3\<lparr>lb := board_resolved (world ?d3) 0 (lb ?d3)\<rparr>"
  let ?d5 = "?d4\<lparr>lb := board_resolved (world ?d4) 0 (lb ?d4)\<rparr>"
  have n: "fetchUsername (alice_backend\<lparr>trackies := [?row]\<rparr>) = Some ''Alicia''"
    by (simp add: fetchUsername_def alice_backend_def get_user_def select_single_def mk_row_def)
  have p0: "tn_fetch_pending (tn ?d0)" by (simp add: dash_mount_def topnav_mount_def)
  have p2: "name_pending (lb ?d2)" by (simp add: dash_mount_def)
  have p3: "board_pending (lb ?d3) = [[], ''Alicia'']" using n by (simp add: dash_mount_def)
  have p4: "board_pending (lb ?d4) = [''Alicia'']" using p3 by simp
  have r3: "dash_reach tab0 alice_backend ?d3"
    by (rule dash_reach.step [OF dash_reach.step [OF dash_reach.step [OF dash_reach.mount
          dash_move_fetch [OF p0]] dash_move_edit] dash_move_name [OF p2]])
  have b3: "0 < length (board_pending (lb ?d3))" using p3 by simp
  have b4: "0 < length (board_pending (lb ?d4))" using p4 by simp
  have r5: "dash_reach tab0 alice_backend ?d5"
    by (rule dash_reach.step [OF dash_reach.step [OF r3 dash_move_board [OF b3]] dash_move_board [OF b4]])
  have "dash_settled ?d5 \<and> tn_userName (tn ?d5) = ''alice'' \<and> lb_userName (lb ?d5) = ''Alicia''"
    using alice_mount_fetch n p3 by (simp add: dash_settled_def lb_quiescent_def dash_mount_def)
  moreover have "leaderboardData (lb ?d5) = build_leaderboard ''Alicia'' [?row]"
    using p3 by (simp add: fetchLeaderboardData_def select_all_def alice_backend_def dash_mount_def)
  moreover have "map name (build_leaderboard ''Alicia'' [?row]) = [Some ''Alicia''] \<and>
                 map isUser (build_leaderboard ''Alicia'' [?row]) = [True]"
    by (simp add: build_leaderboard_unfold mk_row_def to_entry_def)
  ultimately show ?thesis using r5 by (intro exI [of _ ?d5]) simp
qed

end
