(* ===== verification/Spec2Isabelle.thy ===== *)
theory Spec2Isabelle
  imports Dashboard
begin

text \<open>
  \<^bold>\<open>A verification model of the fitness dashboard front end.\<close>

  The repository is three React pages under \<open>src/src/pages\<close>.  \<open>Leaderboard.jsx\<close>
  fetches every row of the backend table \<open>registered_trackies\<close>, scores each user with
  \<open>calculatePoints\<close>, sorts by points, numbers the ranks and renders a podium and a
  list, highlighting the signed-in user, whose name a second effect
  (\<open>fetchUsername\<close>) resolves.  \<open>TopNav.jsx\<close> fetches the same user's name and streak,
  toggles a profile popup and logs out.  \<open>Sidebar.jsx\<close> renders a fixed menu and
  reports clicks to its parent through \<open>setActiveTab\<close>.  The pages share no state
  with each other; they interact only through the backend client \<open>./supabase\<close>,
  which is not among the sources.

  \<^bold>\<open>Theories.\<close>
  \<^item> \<open>Prelude\<close>: nullable columns as \<open>option\<close> (\<open>None\<close> is \<open>null\<close>), the
    JavaScript coercions the code relies on (\<open>to_number\<close> for \<open>null * k\<close>,
    \<open>js_or_str\<close>/\<open>js_or_int\<close> for \<open>x || d\<close>, \<open>js_str_eq\<close> for \<open>===\<close>), column
    range predicates and shared list lemmas; the \<open>js_simps\<close> collection.
  \<^item> \<open>JS_Array\<close>: \<open>Array.prototype.sort\<close> with a comparator as \<open>js_sort\<close>, a
    stable insertion sort (a comparator result \<open>> 0\<close> puts the second element first).
    ECMAScript requires stability, and for a comparator that subtracts keys the stable
    sorted permutation is unique (\<open>js_sort_unique\<close>), so every conforming engine
    returns what \<open>js_sort\<close> returns; \<open>js_sort_key_comparator\<close> proves it equal to
    the library's \<open>sort_key\<close>.
  \<^item> \<open>Backend\<close> (modelled from the client's documented behaviour, the module being
    absent): the session, the table as a list of \<open>trackie\<close> rows in service order,
    whether the service answers; \<open>get_user\<close>, \<open>select_all\<close> and
    \<open>select_single\<close> (\<open>.eq('user_id', id).single()\<close>: an error unless exactly one
    row matches), \<open>signOut\<close> (the session is kept and an error returned when the
    service cannot be reached).  Every query result is a \<open>query_result\<close>, the error
    branch included.
  \<^item> \<open>Points\<close>: \<open>calculatePoints\<close> (Leaderboard.jsx 6--11) with its dead
    half-weight binding kept; \<open>js_safe_integer\<close> for exactness of double arithmetic.
  \<^item> \<open>Ranking\<close>: the pure part of \<open>fetchLeaderboardData\<close> (54--66): \<open>to_entry\<close>
    (the object literal, \<open>rank\<close> still absent), \<open>by_points_desc\<close> and
    \<open>sort_leaderboard\<close> (the sort call), \<open>assign_ranks_from\<close> (the \<open>forEach\<close>),
    \<open>build_leaderboard\<close>; and the abstract specification \<open>ranked_spec\<close>.
  \<^item> \<open>Leaderboard\<close>: the component state \<open>lb_state\<close>, \<open>fetchUsername\<close>,
    \<open>fetchLeaderboardData\<close>, their completions \<open>username_resolved\<close> and
    \<open>board_resolved\<close>, and the step relation \<open>lb_step\<close> in which responses arrive
    in any order; \<open>lb_reach\<close> (all schedules), \<open>lb_fifo_reach\<close> (in-order
    completion), \<open>lb_trace\<close>.  The backend is fixed during a run.
  \<^item> \<open>LeaderboardView\<close>: \<open>getTrophyColor\<close>, the podium and the list rows
    (77--153) reduced to the values and class names they show and their React keys.
  \<^item> \<open>TopNav\<close>: \<open>topnav_state\<close>, \<open>fetchUserData\<close>, \<open>toggle_profile\<close>,
    \<open>handleLogout\<close> (sign-out, its result ignored, then a reload), events as
    \<open>tn_event\<close> with \<open>tn_step\<close>/\<open>tn_run\<close> (\<open>None\<close> for an event that cannot happen).
  \<^item> \<open>Sidebar\<close>: \<open>menuItems\<close> with the source's icons as a datatype, the rendered
    buttons \<open>sidebar_view\<close>, and \<open>sidebar_handle\<close> for the clicks.
  \<^item> \<open>LeaderboardRuns\<close>: the schedules of the Leaderboard as data:
    \<open>lb_succs\<close> lists every successor of a state (every \<open>lb_step\<close> is among them),
    \<open>lb_explore\<close> enumerates the states reachable in a given number of steps, so that
    the outcomes of a concrete backend are computed by \<open>simp\<close>; well-formedness of
    a board entry (\<open>wf_entry\<close>, \<open>wf_board\<close>); progress and eventual settling.
  \<^item> \<open>Dashboard\<close>: the three pages composed on one backend.  The parent page is
    in neither the sources nor the spec; \<open>dash_step\<close> is an environment for the
    pages, not a translation: Leaderboard responses, TopNav events, sidebar clicks,
    and changes by others (table edits, outages, the session ending or changing).  A
    logout is the reload of TopNav.jsx line 42, the whole page mounted again on the
    backend \<open>handleLogout\<close> left.  One lemma per kind of move (\<open>dash_moves\<close>)
    builds the concrete runs.
  \<^item> this theory: properties that span components.

  \<^bold>\<open>What is proved.\<close>
  The ranking (C1--C9): ranks exactly \<open>1..n\<close>, descending points, a permutation of
  the rows, stability on ties, refinement of \<open>ranked_spec\<close> (the output is its unique
  solution), non-negative scores, the \<open>isUser\<close> flag as strict name equality,
  independence of row order when scores are distinct, and exactness of the arithmetic
  for \<open>int4\<close> counts.
  The component (C10--C16): the ranked-list invariant over every schedule, termination
  of every response sequence (at most three steps: the measure is two for the pending
  name fetch plus one per leaderboard fetch in flight), at most two fetches in flight,
  consistency under in-order completion, the stale-fetch race as a concrete reachable
  counterexample, the early-return path of \<open>fetchUsername\<close>, and the \<open>'User'\<close>
  fallback.  The view (C17), TopNav (C18--C20), Sidebar (C21) and the
  cross-component properties of this theory (C22--C24).
  The schedules (C25--C27): every state can settle (liveness), every reachable board is
  well formed (scores agree with \<open>calculatePoints\<close>, ranks within \<open>1..n\<close>), and for
  a one-row backend the set of settled lists is exactly the correct list and the stale
  list of the race C14.
  The composed screen (C28): TopNav and the Leaderboard can settle on different names
  when the row is renamed between their fetches.
  Error paths (C29, C30): a failed leaderboard fetch leaves the list shown unchanged,
  not emptied; a logout reloads the page whatever the sign-out returns, and keeps the
  session when the service is unreachable.
  The bound of three in \<open>lb_explore\<close> is enough because \<open>lb_outstanding\<close> is at
  most three after mount and falls by one with every step (C11, C12).

  \<^bold>\<open>Not modelled.\<close>
  Markup, styling and animation (Tailwind classes other than the ones a property reads,
  \<open>framer-motion\<close>, icons as drawings); \<open>console.error\<close>; exceptions thrown inside
  the \<open>try\<close> blocks (the client reports failures in its \<open>error\<close> field, which is
  modelled, and the client resolves rather than rejects on network failures, so the
  \<open>catch\<close> blocks are reached only by programming errors of the client);
  the parent page that owns \<open>activeTab\<close> and mounts the three pages (neither the
  sources nor the spec describe it; \<open>Dashboard\<close> only assumes an environment for
  them, with every page mounted whatever the tab); React's scheduling beyond the order of
  effect completions.  Counts are mathematical integers: for \<open>int4\<close>
  columns C9 shows every value the code computes is a safe integer, so IEEE doubles
  compute the same numbers.

  \<^bold>\<open>Executability.\<close>
  Every operation is a \<open>definition\<close>, \<open>fun\<close> or \<open>primrec\<close> that computes.  The
  component's step relation \<open>lb_step\<close> picks which fetch in flight completes by an
  index bounded by the pending list, which the predicate compiler cannot enumerate;
  its executable form is the successor function \<open>lb_succs\<close>, which contains every
  successor (\<open>lb_step_succs\<close>), and the concrete outcomes of C27 are computed through
  it by \<open>simp\<close>.  The composed
  relation \<open>dash_step\<close> lets the environment write any table, so it has no finite
  successor function; its concrete runs are chains of the single-move lemmas
  \<open>dash_moves\<close> of \<open>Dashboard\<close>.

  \<^bold>\<open>What is left.\<close>
  The three source files are modelled line by line except their imports, exports and
  closing braces, the static headings, and the bell button (which has no handler).
  What remains open is a property, not code: the in-order consistency of C13 restated
  over the composed relation, where the table may change between the two leaderboard
  fetches (C28 shows the names may then differ).
\<close>

lemma fetchUserData_name: "map_option fst (fetchUserData b) = fetchUsername b"
  by (simp add: fetchUserData_def fetchUsername_def split: auth_result.splits query_result.splits)

lemma fetch_user_done_mount_name:
  "tn_userName (fetch_user_done b topnav_mount) = (case fetchUsername b of None \<Rightarrow> [] | Some n \<Rightarrow> n)"
proof -
  have "map_option fst (fetchUserData b) = fetchUsername b" by (rule fetchUserData_name)
  then show ?thesis
    by (auto simp: fetch_user_done_def topnav_mount_def split: option.splits prod.splits)
qed

lemma lb_fifo_reach_pending_name: "lb_fifo_reach b s \<Longrightarrow> name_pending s \<Longrightarrow> lb_userName s = []"
  by (induction rule: lb_fifo_reach.induct)
     (auto simp: lb_mount_def username_resolved_def Let_def split: option.splits)

lemma lb_fifo_reach_name:
  "lb_fifo_reach b s \<Longrightarrow> \<not> name_pending s \<Longrightarrow> lb_userName s = lb_userName (username_resolved b lb_mount)"
proof (induction rule: lb_fifo_reach.induct)
  case mount
  then show ?case by (simp add: lb_mount_def)
next
  case (name s)
  from name.hyps have "lb_userName s = []" by (rule lb_fifo_reach_pending_name)
  with name.hyps(2) show ?case
    by (auto simp: username_resolved_def lb_mount_def Let_def split: option.splits)
next
  case (board s)
  then show ?case by simp
qed

subsection \<open>Properties across components\<close>

text \<open>
  C22. TopNav and the Leaderboard resolve the same user name from the same backend: the
  name TopNav welcomes after its mount fetch is the name the Leaderboard holds after
  \<open>fetchUsername\<close>, in every case (both empty when the lookup fails).
\<close>

theorem topnav_leaderboard_same_name:
  "tn_userName (fetch_user_done b topnav_mount) = lb_userName (username_resolved b lb_mount)"
  by (simp add: fetch_user_done_mount_name split: option.splits)

text \<open>
  C23. In every reachable state of the Leaderboard component the React keys it renders
  (the ranks) are defined and distinct, in the podium and in the list.
\<close>

theorem lb_render_keys_distinct:
  assumes "lb_reach b s"
  shows "distinct (map row_key (view_rows (render_leaderboard s))) \<and>
         None \<notin> set (map row_key (view_rows (render_leaderboard s))) \<and>
         distinct (map card_key (view_podium (render_leaderboard s)))"
proof -
  have "ranked_list (leaderboardData s)" using lb_reach_inv [OF assms] by (simp add: lb_inv_def)
  then have k: "distinct (map rank (leaderboardData s))" "None \<notin> set (map rank (leaderboardData s))"
    using ranked_list_keys by blast+
  then have "distinct (take 3 (map rank (leaderboardData s)))" by (simp add: distinct_take)
  with k show ?thesis
    by (simp only: render_leaderboard_def lb_view.simps map_row_key map_card_key_podium) simp
qed

theorem lb_render_keys_distinct_witness:
  "lb_reach alice_backend (board_resolved alice_backend 0 lb_mount) \<and>
   distinct (map row_key (view_rows (render_leaderboard (board_resolved alice_backend 0 lb_mount))))"
proof -
  have r: "lb_reach alice_backend (board_resolved alice_backend 0 lb_mount)"
    by (rule lb_reach.step [OF lb_reach.mount]) (rule lb_step.board_done, simp add: lb_mount_def)
  show ?thesis using r lb_render_keys_distinct [OF r] by simp
qed

text \<open>
  C24. When the leaderboard fetches complete in order and the backend answers, the
  settled list marks \<open>(You)\<close> on exactly the rows whose name is the one TopNav
  welcomes.
\<close>

theorem lb_you_matches_topnav:
  assumes "lb_fifo_reach b s" and "reachable_db b" and "lb_quiescent s"
  shows "map row_you (view_rows (render_leaderboard s)) =
         map (\<lambda>r. row_name r = Some (tn_userName (fetch_user_done b topnav_mount)))
             (view_rows (render_leaderboard s))"
proof -
  have d: "leaderboardData s = build_leaderboard (lb_userName s) (trackies b)"
    using lb_fifo_reach_inv [OF assms(1,2)] assms(3) by (simp add: fifo_inv_def lb_quiescent_def)
  have "lb_userName s = tn_userName (fetch_user_done b topnav_mount)"
    using lb_fifo_reach_name [OF assms(1)] assms(3)
    by (simp add: lb_quiescent_def fetch_user_done_mount_name split: option.splits)
  with d show ?thesis
    by (simp add: render_leaderboard_def render_row_def isUser_build_leaderboard)
qed

theorem lb_you_matches_topnav_witness:
  "lb_fifo_reach alice_backend (board_resolved alice_backend 0 lb_mount) \<and>
   reachable_db alice_backend \<and>
   \<not> lb_quiescent (username_resolved alice_backend (board_resolved alice_backend 0 lb_mount)) \<and>
   lb_fifo_reach alice_backend
     (board_resolved alice_backend 0 (username_resolved alice_backend (board_resolved alice_backend 0 lb_mount))) \<and>
   map row_you (view_rows (render_leaderboard
     (board_resolved alice_backend 0 (username_resolved alice_backend (board_resolved alice_backend 0 lb_mount))))) = [True]"
proof -
  let ?s1 = "board_resolved alice_backend 0 lb_mount"
  let ?s2 = "username_resolved alice_backend ?s1"
  let ?s3 = "board_resolved alice_backend 0 ?s2"
  have r1: "lb_fifo_reach alice_backend ?s1"
    by (rule lb_fifo_reach.board [OF lb_fifo_reach.mount]) (simp add: lb_mount_def)
  have p1: "board_pending ?s1 = []" "name_pending ?s1" "lb_userName ?s1 = []"
    by (simp_all add: lb_mount_def)
  have p2: "board_pending ?s2 = [''alice'']" "\<not> name_pending ?s2" "lb_userName ?s2 = ''alice''"
    by (simp_all add: username_resolved_def Let_def p1 lb_mount_def)
  have r2: "lb_fifo_reach alice_backend ?s2"
    by (rule lb_fifo_reach.name [OF r1]) (simp add: p1)
  have r3: "lb_fifo_reach alice_backend ?s3"
    by (rule lb_fifo_reach.board [OF r2]) (simp add: p2)
  have db: "reachable_db alice_backend" by (simp add: alice_backend_def)
  have q: "lb_quiescent ?s3" by (simp add: lb_quiescent_def p2)
  have nq: "\<not> lb_quiescent ?s2" by (simp add: lb_quiescent_def p2)
  have tn: "tn_userName (fetch_user_done alice_backend topnav_mount) = ''alice''"
    by (simp add: fetch_user_done_mount_name)
  have rows: "map row_name (view_rows (render_leaderboard ?s3)) = [Some ''alice'']"
    by (simp add: render_leaderboard_def render_row_def p2 fetchLeaderboardData_def
                  build_leaderboard_unfold mk_row_def to_entry_def)
  have "map row_you (view_rows (render_leaderboard ?s3)) =
        map (\<lambda>r. row_name r = Some ''alice'') (view_rows (render_leaderboard ?s3))"
    using lb_you_matches_topnav [OF r3 db q] by (simp only: tn)
  also have "\<dots> = map (\<lambda>n. n = Some ''alice'') (map row_name (view_rows (render_leaderboard ?s3)))"
    by simp
  also have "\<dots> = [True]" by (simp only: rows) simp
  finally show ?thesis using r1 db nq r3 by simp
qed

end
